theory Spec2Isabelle
  imports Main "HOL-Library.AList" "HOL-Library.Product_Lexorder" "HOL-Library.List_Lexorder"
    "HOL-Library.Char_ord"
begin

section \<open>Data model (src/src/models/reminder_models.py)\<close>

text \<open>
  \<^verbatim>\<open>ReminderStatus\<close> is an \<^verbatim>\<open>Enum\<close> whose values are strings, and
  \<^verbatim>\<open>ReminderData.status\<close> is a \<^verbatim>\<open>str\<close> holding such a value. The status is kept
  as the string, so that the comparisons of the services
  (\<^verbatim>\<open>reminder.status in [ReminderStatus.SENT.value, ...]\<close>) are string comparisons
  here as well.

  The scheduler assigns the enum member itself (\<^verbatim>\<open>reminder.status = ReminderStatus.RETRY\<close>),
  not its value. A member is equal to none of the value strings, and \<^verbatim>\<open>str\<close> and the
  JSON of the queue (\<^verbatim>\<open>default=str\<close>) write it as \<^verbatim>\<open>ReminderStatus.RETRY\<close>. A member
  is therefore represented by that text, which differs from every value.
\<close>

abbreviation PENDING :: string where "PENDING \<equiv> ''pending''"
abbreviation SCHEDULED :: string where "SCHEDULED \<equiv> ''scheduled''"
abbreviation SENT :: string where "SENT \<equiv> ''sent''"
abbreviation DELIVERED :: string where "DELIVERED \<equiv> ''delivered''"
abbreviation FAILED :: string where "FAILED \<equiv> ''failed''"
abbreviation CANCELLED :: string where "CANCELLED \<equiv> ''cancelled''"
abbreviation RETRY :: string where "RETRY \<equiv> ''retry''"

abbreviation RETRY_member :: string where "RETRY_member \<equiv> ''ReminderStatus.RETRY''"
abbreviation FAILED_member :: string where "FAILED_member \<equiv> ''ReminderStatus.FAILED''"

abbreviation SMS :: string where "SMS \<equiv> ''sms''"
abbreviation VOICE :: string where "VOICE \<equiv> ''voice''"
abbreviation BOTH :: string where "BOTH \<equiv> ''both''"

text \<open>The dataclass \<^verbatim>\<open>ReminderData\<close>, field by field (\<^verbatim>\<open>id\<close> is \<open>reminder_id\<close>).\<close>

record reminder =
  reminder_id :: "int option"
  patient_id :: int
  reminder_type :: string
  delivery_method :: string
  status :: string
  scheduled_time :: "int option"
  priority :: string
  custom_message :: "string option"
  metadata :: "(string \<times> string) list"
  created_at :: "int option"
  updated_at :: "int option"
  sent_at :: "int option"
  delivered_at :: "int option"
  retry_count :: int
  max_retries :: int
  retry_interval :: int
  twilio_sid :: "string option"
  error_message :: "string option"

text \<open>
  The statuses the specification calls terminal, and the retry bookkeeping invariant.
\<close>

definition terminal :: "string \<Rightarrow> bool" where
  "terminal s = (s \<in> set [SENT, DELIVERED, CANCELLED, FAILED])"

definition retry_inv :: "reminder \<Rightarrow> bool" where
  "retry_inv r = (0 \<le> retry_count r \<and> retry_count r \<le> max_retries r)"

section \<open>Exceptions and the clock\<close>

text \<open>
  Exceptions are values. The texts of the source's own messages are French; they are
  written here without accents, and a number inside a message is printed by
  \<open>str_int\<close>.
\<close>

datatype error =
    ValueError string
  | OverflowError string
  | IndexError
  | TypeError
  | ConnectionError

fun str_nat :: "nat \<Rightarrow> string" where
  "str_nat n =
     (if n < 10 then [char_of (48 + n)]
      else str_nat (n div 10) @ [char_of (48 + n mod 10)])"

definition str_int :: "int \<Rightarrow> string" where
  "str_int i = (if i < 0 then CHR ''-'' # str_nat (nat (- i)) else str_nat (nat i))"

text \<open>
  A point in time (\<^verbatim>\<open>datetime\<close>) is a whole number of seconds counted from the epoch,
  and \<^verbatim>\<open>datetime.now()\<close> is an argument \<open>now\<close> of every operation that reads the
  clock (one reading for the whole operation).

  \<^verbatim>\<open>timedelta(seconds=n)\<close> of CPython splits \<open>n\<close> into days and seconds and converts
  the days to a C \<^verbatim>\<open>int\<close>: it raises \<^verbatim>\<open>OverflowError\<close> when they do not fit, and
  when their magnitude exceeds 999999999. \<^verbatim>\<open>datetime + timedelta\<close> raises
  \<^verbatim>\<open>OverflowError\<close> when the sum leaves the years 1 to 9999, that is the seconds
  from -62135596800 to 253402300799. \<open>Inl\<close> carries the text of the exception.
\<close>

definition timedelta :: "int \<Rightarrow> string + int" where
  "timedelta seconds =
     (let days = seconds div 86400
      in if days < - 2147483648 \<or> 2147483647 < days then
           Inl ''Python int too large to convert to C int''
         else if days < - 999999999 \<or> 999999999 < days then
           Inl (''days='' @ str_int days @ ''; must have magnitude <= 999999999'')
         else Inr seconds)"

definition datetime_plus :: "int \<Rightarrow> int \<Rightarrow> string + int" where
  "datetime_plus now seconds =
     (case timedelta seconds of
        Inl m \<Rightarrow> Inl m
      | Inr d \<Rightarrow>
          (if now + d < - 62135596800 \<or> 253402300799 < now + d then
             Inl ''date value out of range''
           else Inr (now + d)))"

text \<open>
  The text of a float timestamp at a whole second, as \<^verbatim>\<open>f"{datetime.now().timestamp()}"\<close>
  writes it: the digits followed by \<^verbatim>\<open>.0\<close>.
\<close>

definition timestamp_text :: "int \<Rightarrow> string" where
  "timestamp_text t = str_int t @ ''.0''"

section \<open>Sorted sets\<close>

text \<open>
  A Redis sorted set is a list of (member, score) pairs with one pair per member:
  \<^verbatim>\<open>ZADD\<close> on a present member replaces its score. Members are JSON texts in the
  source; they are kept as the records the texts are written from, equal records being
  one member as equal texts are. Redis orders members by score and, at equal scores,
  by the bytes of the member: \<open>member_text\<close>, an argument of every operation that
  reads a sorted set in order, gives the text that \<^verbatim>\<open>json.dumps\<close> writes for a
  member. Pairs are compared lexicographically, texts as lists of bytes.

  \<^verbatim>\<open>ZRANGE key 0 -1\<close> lists all members in this order, and
  \<^verbatim>\<open>ZRANGEBYSCORE key lo hi\<close> those whose score lies in the closed range.
\<close>

type_synonym 'm zset = "('m \<times> int) list"

definition zadd :: "'m \<Rightarrow> int \<Rightarrow> 'm zset \<Rightarrow> 'm zset" where
  "zadd m score z = AList.update m score z"

definition zrange :: "('m \<Rightarrow> string) \<Rightarrow> 'm zset \<Rightarrow> 'm list" where
  "zrange member_text z = map fst (sort_key (\<lambda>p. (snd p, member_text (fst p))) z)"

definition zrangebyscore :: "('m \<Rightarrow> string) \<Rightarrow> int \<Rightarrow> int \<Rightarrow> 'm zset \<Rightarrow> 'm list" where
  "zrangebyscore member_text lo hi z =
     map fst (filter (\<lambda>p. lo \<le> snd p \<and> snd p \<le> hi)
                (sort_key (\<lambda>p. (snd p, member_text (fst p))) z))"

definition zrem :: "'m \<Rightarrow> 'm zset \<Rightarrow> 'm zset" where
  "zrem m z = filter (\<lambda>p. fst p \<noteq> m) z"

section \<open>The reminder service's queue (src/src/services/reminder_service.py)\<close>

text \<open>
  \<^verbatim>\<open>_schedule_reminder\<close> writes the JSON text of seven fields of the reminder into
  the sorted set \<^verbatim>\<open>reminders:scheduled\<close>, scored by the timestamp of
  \<^verbatim>\<open>scheduled_time\<close>. \<^verbatim>\<open>self.redis_client\<close> is \<^verbatim>\<open>None\<close> when Redis could not
  be reached at start-up; the service's queue is then \<open>None\<close>.
\<close>

record queue_entry =
  e_id :: "int option"
  e_patient_id :: int
  e_reminder_type :: string
  e_delivery_method :: string
  e_priority :: string
  e_custom_message :: "string option"
  e_metadata :: "(string \<times> string) list"

definition entry_of :: "reminder \<Rightarrow> queue_entry" where
  "entry_of r = \<lparr> e_id = reminder_id r, e_patient_id = patient_id r,
     e_reminder_type = reminder_type r, e_delivery_method = delivery_method r,
     e_priority = priority r, e_custom_message = custom_message r,
     e_metadata = metadata r \<rparr>"

text \<open>
  \<^verbatim>\<open>_schedule_reminder\<close>: nothing happens without a client; an exception inside
  the \<^verbatim>\<open>try\<close> (here: \<^verbatim>\<open>scheduled_time\<close> is \<^verbatim>\<open>None\<close>) is logged and swallowed.
\<close>

definition schedule_reminder ::
  "reminder \<Rightarrow> queue_entry zset option \<Rightarrow> queue_entry zset option" where
  "schedule_reminder r q =
     (case q of
        None \<Rightarrow> None
      | Some z \<Rightarrow>
          (case scheduled_time r of
             None \<Rightarrow> Some z
           | Some t \<Rightarrow> Some (zadd (entry_of r) t z)))"

text \<open>
  \<^verbatim>\<open>_schedule_retry\<close>: count the retry, set the status to RETRY, move the due time
  \<^verbatim>\<open>retry_interval\<close> seconds after now, and enqueue. The sum of the third assignment
  may raise \<^verbatim>\<open>OverflowError\<close>; the first two assignments have then been made, and
  \<open>Inl\<close> carries the text of the exception and the reminder as it is at that moment.
\<close>

definition schedule_retry ::
  "int \<Rightarrow> reminder \<Rightarrow> queue_entry zset option
     \<Rightarrow> (string \<times> reminder) + (reminder \<times> queue_entry zset option)" where
  "schedule_retry now r q =
     (let r1 = r\<lparr> retry_count := retry_count r + 1, status := RETRY \<rparr>
      in case datetime_plus now (retry_interval r1) of
           Inl m \<Rightarrow> Inl (m, r1)
         | Inr t \<Rightarrow>
             (let r2 = r1\<lparr> scheduled_time := Some t \<rparr>
              in Inr (r2, schedule_reminder r2 q)))"

section \<open>Status ingestion: \<^verbatim>\<open>update_delivery_status\<close>\<close>

text \<open>
  \<^verbatim>\<open>str.lower()\<close> on the provider's status. Characters are bytes here, and the
  letters A to Z are mapped to a to z; every other character stays. (No character outside
  ASCII is lower-cased by Python to a letter that occurs in the four keys of the mapping
  below.)
\<close>

definition lower_char :: "char \<Rightarrow> char" where
  "lower_char c =
     (case map_of (zip ''ABCDEFGHIJKLMNOPQRSTUVWXYZ'' ''abcdefghijklmnopqrstuvwxyz'') c of
        None \<Rightarrow> c
      | Some d \<Rightarrow> d)"

definition lower :: "string \<Rightarrow> string" where
  "lower s = map lower_char s"

definition status_mapping :: "(string \<times> string) list" where
  "status_mapping =
     [(''delivered'', DELIVERED), (''sent'', SENT), (''failed'', FAILED), (''undelivered'', FAILED)]"

text \<open>\<^verbatim>\<open>error_message or f"Erreur Twilio: {error_code}"\<close>\<close>

definition twilio_error_text :: "string option \<Rightarrow> string option \<Rightarrow> string" where
  "twilio_error_text error_code error_msg =
     (let fallback = ''Erreur Twilio: '' @ (case error_code of None \<Rightarrow> ''None'' | Some c \<Rightarrow> c)
      in case error_msg of
           None \<Rightarrow> fallback
         | Some m \<Rightarrow> (if m = [] then fallback else m))"

text \<open>
  The persistence methods of the service are placeholders in the source
  (\<^verbatim>\<open>_get_reminder_by_twilio_sid\<close> and \<^verbatim>\<open>_get_reminder_from_db\<close> return
  \<^verbatim>\<open>None\<close>, \<^verbatim>\<open>_update_reminder_in_db\<close> only logs). The result of the lookup is
  therefore an argument of each operation (\<open>None\<close> is what the placeholder gives, \<open>Some r\<close>
  what a store that holds the reminder gives), and the reminder handed to
  \<^verbatim>\<open>_update_reminder_in_db\<close> is part of the result.

  \<open>update_delivery_status now q found status error_code error_msg\<close> returns the
  boolean of the source, the reminder after the call and the queue after the call. The
  \<^verbatim>\<open>OverflowError\<close> of \<^verbatim>\<open>_schedule_retry\<close> is not caught here: \<open>Inl\<close> carries
  the exception and the reminder as it is when the exception leaves the method.
\<close>

definition update_delivery_status ::
  "int \<Rightarrow> queue_entry zset option \<Rightarrow> reminder option \<Rightarrow> string \<Rightarrow> string option \<Rightarrow> string option
     \<Rightarrow> (error \<times> reminder) + (bool \<times> reminder option \<times> queue_entry zset option)" where
  "update_delivery_status now q found provider_status error_code error_msg =
     (case found of
        None \<Rightarrow> Inr (False, None, q)
      | Some r \<Rightarrow>
          (let new_status =
                 (case map_of status_mapping (lower provider_status) of
                    None \<Rightarrow> status r
                  | Some s \<Rightarrow> s)
           in if new_status \<noteq> status r then
                (let r1 = r\<lparr> status := new_status, updated_at := Some now \<rparr>
                 in if new_status = DELIVERED then
                      Inr (True, Some (r1\<lparr> delivered_at := Some now \<rparr>), q)
                    else if new_status = FAILED then
                      (let r2 = r1\<lparr> error_message := Some (twilio_error_text error_code error_msg) \<rparr>
                       in if retry_count r2 < max_retries r2 then
                            (case schedule_retry now r2 q of
                               Inl (m, r3) \<Rightarrow> Inl (OverflowError m, r3)
                             | Inr (r3, q') \<Rightarrow> Inr (True, Some r3, q'))
                          else Inr (True, Some r2, q))
                    else Inr (True, Some r1, q))
              else Inr (True, Some r, q)))"

section \<open>Store operations of the reminder service\<close>

text \<open>
  \<^verbatim>\<open>_remove_from_queue\<close>: walk through \<^verbatim>\<open>ZRANGE\<close> and delete the first member
  that carries the id, then stop. \<^verbatim>\<open>_reschedule_reminder\<close>: remove, then enqueue
  again.
\<close>

definition remove_from_queue ::
  "(queue_entry \<Rightarrow> string) \<Rightarrow> int option \<Rightarrow> queue_entry zset option \<Rightarrow> queue_entry zset option" where
  "remove_from_queue member_text rid q =
     (case q of
        None \<Rightarrow> None
      | Some z \<Rightarrow>
          (case find (\<lambda>m. e_id m = rid) (zrange member_text z) of
             None \<Rightarrow> Some z
           | Some m \<Rightarrow> Some (zrem m z)))"

definition reschedule_reminder ::
  "(queue_entry \<Rightarrow> string) \<Rightarrow> reminder \<Rightarrow> queue_entry zset option \<Rightarrow> queue_entry zset option" where
  "reschedule_reminder member_text r q =
     (case q of
        None \<Rightarrow> None
      | Some z \<Rightarrow> schedule_reminder r (remove_from_queue member_text (reminder_id r) q))"

text \<open>
  \<^verbatim>\<open>cancel_reminder(reminder_id)\<close>: \<^verbatim>\<open>False\<close> when the reminder is not found,
  \<^verbatim>\<open>ValueError\<close> when its status is SENT or DELIVERED, and otherwise the status
  becomes CANCELLED and \<^verbatim>\<open>_remove_from_queue\<close> is called.
\<close>

definition cancel_reminder ::
  "(queue_entry \<Rightarrow> string) \<Rightarrow> int \<Rightarrow> queue_entry zset option \<Rightarrow> int \<Rightarrow> reminder option
     \<Rightarrow> error + (bool \<times> reminder option \<times> queue_entry zset option)" where
  "cancel_reminder member_text now q rid found =
     (case found of
        None \<Rightarrow> Inr (False, None, q)
      | Some r \<Rightarrow>
          if status r \<in> set [SENT, DELIVERED] then
            Inl (ValueError ''Impossible d annuler un rappel deja envoye'')
          else
            (let r' = r\<lparr> status := CANCELLED, updated_at := Some now \<rparr>
             in Inr (True, Some r', remove_from_queue member_text (Some rid) q)))"

text \<open>
  The pydantic model \<^verbatim>\<open>ReminderUpdate\<close>: every field optional, with the bounds of
  its \<^verbatim>\<open>Field\<close> declarations and the validator of \<^verbatim>\<open>scheduled_time\<close>.
\<close>

record reminder_update =
  u_scheduled_time :: "int option"
  u_priority :: "string option"
  u_custom_message :: "string option"
  u_metadata :: "(string \<times> string) list option"
  u_max_retries :: "int option"
  u_retry_interval :: "int option"

definition valid_ReminderUpdate :: "int \<Rightarrow> reminder_update \<Rightarrow> bool" where
  "valid_ReminderUpdate now u =
     ((case u_scheduled_time u of None \<Rightarrow> True | Some t \<Rightarrow> now < t) \<and>
      (case u_priority u of None \<Rightarrow> True | Some p \<Rightarrow> p \<in> set [''low'', ''normal'', ''high'', ''urgent'']) \<and>
      (case u_max_retries u of None \<Rightarrow> True | Some m \<Rightarrow> 0 \<le> m \<and> m \<le> 10) \<and>
      (case u_retry_interval u of None \<Rightarrow> True | Some i \<Rightarrow> 60 \<le> i))"

text \<open>\<^verbatim>\<open>dict.update\<close>: a present key keeps its place, a new key goes to the end.\<close>

definition dict_update :: "(string \<times> string) list \<Rightarrow> (string \<times> string) list \<Rightarrow> (string \<times> string) list" where
  "dict_update d new = fold (\<lambda>kv acc. AList.update (fst kv) (snd kv) acc) new d"

text \<open>
  \<^verbatim>\<open>update_reminder(reminder_id, update_data)\<close>: \<^verbatim>\<open>None\<close> when the reminder is
  not found, \<^verbatim>\<open>ValueError\<close> when its status is SENT, DELIVERED or CANCELLED;
  otherwise each field that the update carries is written, in the order of the source.
\<close>

definition update_reminder ::
  "(queue_entry \<Rightarrow> string) \<Rightarrow> int \<Rightarrow> queue_entry zset option \<Rightarrow> reminder option \<Rightarrow> reminder_update
     \<Rightarrow> error + (reminder option \<times> queue_entry zset option)" where
  "update_reminder member_text now q found u =
     (case found of
        None \<Rightarrow> Inr (None, q)
      | Some r \<Rightarrow>
          if status r \<in> set [SENT, DELIVERED, CANCELLED] then
            Inl (ValueError (''Impossible de modifier un rappel avec le statut: '' @ status r))
          else
            (let r1 = (case u_scheduled_time u of None \<Rightarrow> r | Some t \<Rightarrow> r\<lparr> scheduled_time := Some t \<rparr>);
                 r2 = (case u_priority u of None \<Rightarrow> r1 | Some p \<Rightarrow> r1\<lparr> priority := p \<rparr>);
                 r3 = (case u_custom_message u of None \<Rightarrow> r2 | Some m \<Rightarrow> r2\<lparr> custom_message := Some m \<rparr>);
                 r4 = (case u_metadata u of
                         None \<Rightarrow> r3
                       | Some d \<Rightarrow> (if d = [] then r3 else r3\<lparr> metadata := dict_update (metadata r3) d \<rparr>));
                 r5 = (case u_max_retries u of None \<Rightarrow> r4 | Some m \<Rightarrow> r4\<lparr> max_retries := m \<rparr>);
                 r6 = (case u_retry_interval u of None \<Rightarrow> r5 | Some i \<Rightarrow> r5\<lparr> retry_interval := i \<rparr>);
                 r7 = r6\<lparr> updated_at := Some now \<rparr>
             in Inr (Some r7,
                     (case u_scheduled_time u of
                        None \<Rightarrow> q
                      | Some t \<Rightarrow> reschedule_reminder member_text r7 q))))"

text \<open>
  \<^verbatim>\<open>retry_failed_reminder(reminder_id, force)\<close>: the explicit retry of a failed
  reminder. The sum that gives the new due time may raise \<^verbatim>\<open>OverflowError\<close>, which
  leaves the method.
\<close>

definition retry_failed_reminder ::
  "int \<Rightarrow> queue_entry zset option \<Rightarrow> reminder option \<Rightarrow> bool
     \<Rightarrow> error + (bool \<times> reminder option \<times> queue_entry zset option)" where
  "retry_failed_reminder now q found force =
     (case found of
        None \<Rightarrow> Inr (False, None, q)
      | Some r \<Rightarrow>
          if status r \<noteq> FAILED \<and> \<not> force then
            Inl (ValueError (''Le rappel n est pas en echec: '' @ status r))
          else if retry_count r \<ge> max_retries r \<and> \<not> force then
            Inl (ValueError (''Nombre maximum de tentatives atteint: ''
                   @ str_int (retry_count r) @ ''/'' @ str_int (max_retries r)))
          else
            (case datetime_plus now (retry_interval r) of
               Inl m \<Rightarrow> Inl (OverflowError m)
             | Inr t \<Rightarrow>
                 (let r' = r\<lparr> status := RETRY, scheduled_time := Some t, updated_at := Some now \<rparr>
                  in Inr (True, Some r', schedule_reminder r' q))))"

text \<open>
  The pydantic model \<^verbatim>\<open>ReminderCreate\<close> and \<^verbatim>\<open>create_reminder\<close>. The patient
  directory answers with a patient or with nothing; \<^verbatim>\<open>_save_reminder_to_db\<close>
  gives the new id.
\<close>

record patient =
  phone :: string
  preferred_language :: "string option"

record reminder_create =
  c_patient_id :: int
  c_reminder_type :: string
  c_delivery_method :: string
  c_scheduled_time :: int
  c_priority :: string
  c_custom_message :: "string option"
  c_metadata :: "(string \<times> string) list option"
  c_max_retries :: int
  c_retry_interval :: int

definition valid_ReminderCreate :: "int \<Rightarrow> reminder_create \<Rightarrow> bool" where
  "valid_ReminderCreate now c =
     (c_reminder_type c \<in> set [''appointment_reminder'', ''medication_reminder'', ''health_tip'',
                                 ''emergency_alert'', ''follow_up''] \<and>
      c_delivery_method c \<in> set [SMS, VOICE, BOTH] \<and>
      c_priority c \<in> set [''low'', ''normal'', ''high'', ''urgent''] \<and>
      now < c_scheduled_time c \<and>
      0 \<le> c_max_retries c \<and> c_max_retries c \<le> 10 \<and>
      60 \<le> c_retry_interval c)"

definition create_reminder ::
  "int \<Rightarrow> queue_entry zset option \<Rightarrow> patient option \<Rightarrow> int \<Rightarrow> reminder_create
     \<Rightarrow> error + (reminder \<times> queue_entry zset option)" where
  "create_reminder now q pat new_id c =
     (case pat of
        None \<Rightarrow> Inl (ValueError (''Patient '' @ str_int (c_patient_id c) @ '' introuvable''))
      | Some p \<Rightarrow>
          (let r = \<lparr> reminder_id = Some new_id, patient_id = c_patient_id c,
                     reminder_type = c_reminder_type c, delivery_method = c_delivery_method c,
                     status = PENDING, scheduled_time = Some (c_scheduled_time c),
                     priority = c_priority c, custom_message = c_custom_message c,
                     metadata = (case c_metadata c of None \<Rightarrow> [] | Some d \<Rightarrow> d),
                     created_at = Some now, updated_at = Some now, sent_at = None,
                     delivered_at = None, retry_count = 0, max_retries = c_max_retries c,
                     retry_interval = c_retry_interval c, twilio_sid = None,
                     error_message = None \<rparr>
           in Inr (r, schedule_reminder r q)))"

section \<open>Dispatch: \<^verbatim>\<open>_process_reminder\<close>\<close>

text \<open>
  What one send attempt meets outside the service: the gateway accepts and returns a sid,
  the gateway refuses (\<^verbatim>\<open>success\<close> false, with or without an \<^verbatim>\<open>error\<close> entry),
  or an exception is raised on the way (template, TwiML url). The source has no other
  classification of send failures.
\<close>

datatype send_outcome =
    Accepted string
  | Refused "string option"
  | Raised string

text \<open>
  \<^verbatim>\<open>_send_sms_reminder\<close> and \<^verbatim>\<open>_send_voice_reminder\<close> treat the three outcomes
  alike: the sid is stored on success, \<^verbatim>\<open>error_message\<close> is written on failure.
\<close>

definition send_sms_reminder :: "reminder \<Rightarrow> send_outcome \<Rightarrow> reminder \<times> bool" where
  "send_sms_reminder r outcome =
     (case outcome of
        Accepted sid \<Rightarrow> (r\<lparr> twilio_sid := Some sid \<rparr>, True)
      | Refused e \<Rightarrow>
          (r\<lparr> error_message := Some (case e of None \<Rightarrow> ''Erreur inconnue'' | Some m \<Rightarrow> m) \<rparr>, False)
      | Raised m \<Rightarrow> (r\<lparr> error_message := Some m \<rparr>, False))"

definition send_voice_reminder :: "reminder \<Rightarrow> send_outcome \<Rightarrow> reminder \<times> bool" where
  "send_voice_reminder r outcome =
     (case outcome of
        Accepted sid \<Rightarrow> (r\<lparr> twilio_sid := Some sid \<rparr>, True)
      | Refused e \<Rightarrow>
          (r\<lparr> error_message := Some (case e of None \<Rightarrow> ''Erreur inconnue'' | Some m \<Rightarrow> m) \<rparr>, False)
      | Raised m \<Rightarrow> (r\<lparr> error_message := Some m \<rparr>, False))"

text \<open>
  The part of the \<^verbatim>\<open>try\<close> block of \<^verbatim>\<open>_process_reminder\<close> after the send: SENT on
  success; on failure FAILED, and a retry through \<^verbatim>\<open>_schedule_retry\<close> while the
  budget lasts. \<open>Inl\<close> is an exception raised inside the block, with its text and the
  reminder at that moment.
\<close>

definition finish_dispatch ::
  "int \<Rightarrow> queue_entry zset option \<Rightarrow> reminder \<times> bool
     \<Rightarrow> (string \<times> reminder) + (reminder \<times> queue_entry zset option)" where
  "finish_dispatch now q sent =
     (case sent of (r, result) \<Rightarrow>
        (if result then
           Inr (r\<lparr> status := SENT, sent_at := Some now, updated_at := Some now \<rparr>, q)
         else
           (let r1 = r\<lparr> status := FAILED \<rparr>
            in if retry_count r1 < max_retries r1 then
                 (case schedule_retry now r1 q of
                    Inl raised \<Rightarrow> Inl raised
                  | Inr (r2, q') \<Rightarrow> Inr (r2\<lparr> updated_at := Some now \<rparr>, q'))
               else Inr (r1\<lparr> updated_at := Some now \<rparr>, q))))"

text \<open>
  The \<^verbatim>\<open>except\<close> branch of \<^verbatim>\<open>_process_reminder\<close>: FAILED, with the text of the
  exception.
\<close>

definition process_failed :: "int \<Rightarrow> string \<Rightarrow> reminder \<Rightarrow> reminder" where
  "process_failed now msg r =
     r\<lparr> status := FAILED, error_message := Some msg, updated_at := Some now \<rparr>"

text \<open>
  \<^verbatim>\<open>_process_reminder\<close>. Every exception of the \<^verbatim>\<open>try\<close> block (patient not
  found, unknown delivery method, the \<^verbatim>\<open>OverflowError\<close> of \<^verbatim>\<open>_schedule_retry\<close>)
  ends in the \<^verbatim>\<open>except\<close> branch. With \<^verbatim>\<open>both\<close>, the SMS and the call are both
  attempted, in this order, and the result is the conjunction.
\<close>

definition process_reminder ::
  "int \<Rightarrow> queue_entry zset option \<Rightarrow> patient option \<Rightarrow> send_outcome \<Rightarrow> send_outcome \<Rightarrow> reminder
     \<Rightarrow> reminder \<times> queue_entry zset option" where
  "process_reminder now q pat sms voice r =
     (case pat of
        None \<Rightarrow>
          (process_failed now (''Patient '' @ str_int (patient_id r) @ '' introuvable'') r, q)
      | Some p \<Rightarrow>
          (let r0 = r\<lparr> status := PENDING \<rparr>;
               tried =
                 (if delivery_method r0 = SMS then
                    finish_dispatch now q (send_sms_reminder r0 sms)
                  else if delivery_method r0 = VOICE then
                    finish_dispatch now q (send_voice_reminder r0 voice)
                  else if delivery_method r0 = BOTH then
                    (case send_sms_reminder r0 sms of (r1, sms_result) \<Rightarrow>
                       (case send_voice_reminder r1 voice of (r2, voice_result) \<Rightarrow>
                          finish_dispatch now q (r2, sms_result \<and> voice_result)))
                  else
                    Inl (''Methode de livraison inconnue: '' @ delivery_method r0, r0))
           in case tried of
                Inl (msg, r') \<Rightarrow> (process_failed now msg r', q)
              | Inr finished \<Rightarrow> finished))"

section \<open>The queue service (src/src/services/redis_service.py)\<close>

text \<open>
  The Redis behind \<^verbatim>\<open>RedisService\<close>: the two sorted sets and the list of
  \<^verbatim>\<open>RedisQueues\<close>, and the lock keys. Members are the JSON text of the whole
  \<^verbatim>\<open>ReminderData\<close>. A lock key holds its value and the time of its \<^verbatim>\<open>EX\<close>
  expiry. When the server cannot be reached, every command of the client raises.
\<close>

record redis_store =
  scheduled_reminders :: "reminder zset"
  immediate_reminders :: "reminder list"
  retry_reminders :: "reminder zset"
  locks :: "(string \<times> (string \<times> int)) list"

datatype backend =
    Unreachable
  | Reachable redis_store

text \<open>
  The enqueue operations compute the time of execution before they talk to Redis; every
  exception inside their \<^verbatim>\<open>try\<close> is logged and raised again.
\<close>

definition enqueue_scheduled_reminder :: "int \<Rightarrow> reminder \<Rightarrow> int \<Rightarrow> backend \<Rightarrow> error + backend" where
  "enqueue_scheduled_reminder now r delay_seconds b =
     (if delay_seconds > 0 then
        (case datetime_plus now delay_seconds of
           Inl m \<Rightarrow> Inl (OverflowError m)
         | Inr execute_at \<Rightarrow>
             (case b of
                Unreachable \<Rightarrow> Inl ConnectionError
              | Reachable s \<Rightarrow>
                  Inr (Reachable (s\<lparr> scheduled_reminders :=
                                        zadd r execute_at (scheduled_reminders s) \<rparr>))))
      else
        (case b of
           Unreachable \<Rightarrow> Inl ConnectionError
         | Reachable s \<Rightarrow> Inr (Reachable (s\<lparr> immediate_reminders := r # immediate_reminders s \<rparr>))))"

definition enqueue_immediate_reminder :: "int \<Rightarrow> reminder \<Rightarrow> backend \<Rightarrow> error + backend" where
  "enqueue_immediate_reminder now r b = enqueue_scheduled_reminder now r 0 b"

definition enqueue_retry_reminder :: "int \<Rightarrow> reminder \<Rightarrow> int \<Rightarrow> backend \<Rightarrow> error + backend" where
  "enqueue_retry_reminder now r retry_delay b =
     (case datetime_plus now retry_delay of
        Inl m \<Rightarrow> Inl (OverflowError m)
      | Inr execute_at \<Rightarrow>
          (case b of
             Unreachable \<Rightarrow> Inl ConnectionError
           | Reachable s \<Rightarrow>
               Inr (Reachable (s\<lparr> retry_reminders := zadd r execute_at (retry_reminders s) \<rparr>))))"

text \<open>
  The two dequeue operations on sorted sets read up to \<open>limit\<close> due members and remove
  each one read. The outer \<^verbatim>\<open>except\<close> returns the empty list.
\<close>

definition get_due_scheduled_reminders ::
  "(reminder \<Rightarrow> string) \<Rightarrow> int \<Rightarrow> nat \<Rightarrow> backend \<Rightarrow> reminder list \<times> backend" where
  "get_due_scheduled_reminders member_text now limit b =
     (case b of
        Unreachable \<Rightarrow> ([], Unreachable)
      | Reachable s \<Rightarrow>
          (let results = take limit (zrangebyscore member_text 0 now (scheduled_reminders s))
           in (results,
               Reachable (s\<lparr> scheduled_reminders := fold zrem results (scheduled_reminders s) \<rparr>))))"

definition get_due_retry_reminders ::
  "(reminder \<Rightarrow> string) \<Rightarrow> int \<Rightarrow> nat \<Rightarrow> backend \<Rightarrow> reminder list \<times> backend" where
  "get_due_retry_reminders member_text now limit b =
     (case b of
        Unreachable \<Rightarrow> ([], Unreachable)
      | Reachable s \<Rightarrow>
          (let results = take limit (zrangebyscore member_text 0 now (retry_reminders s))
           in (results,
               Reachable (s\<lparr> retry_reminders := fold zrem results (retry_reminders s) \<rparr>))))"

text \<open>
  \<^verbatim>\<open>get_immediate_reminders\<close>: \<^verbatim>\<open>LPUSH\<close> adds at the head, \<^verbatim>\<open>RPOP\<close> takes
  from the tail, \<open>min limit (length list)\<close> times.
\<close>

fun rpop_loop :: "nat \<Rightarrow> 'a list \<Rightarrow> 'a list \<Rightarrow> 'a list \<times> 'a list" where
  "rpop_loop 0 xs acc = (acc, xs)"
| "rpop_loop (Suc n) xs acc =
     (if xs = [] then rpop_loop n xs acc
      else rpop_loop n (butlast xs) (acc @ [last xs]))"

definition get_immediate_reminders :: "nat \<Rightarrow> backend \<Rightarrow> reminder list \<times> backend" where
  "get_immediate_reminders limit b =
     (case b of
        Unreachable \<Rightarrow> ([], Unreachable)
      | Reachable s \<Rightarrow>
          (case rpop_loop (min limit (length (immediate_reminders s))) (immediate_reminders s) [] of
             (reminders, rest) \<Rightarrow> (reminders, Reachable (s\<lparr> immediate_reminders := rest \<rparr>))))"

text \<open>
  Locks. \<^verbatim>\<open>acquire_lock\<close> is \<^verbatim>\<open>SET key value NX EX timeout\<close>, the value being
  the text of the current timestamp; the server rejects an expiry that is not positive.
  \<^verbatim>\<open>release_lock\<close> is \<^verbatim>\<open>DEL key\<close>; it returns whether a key was deleted. Redis
  holds a key up to and including the instant of its expiry and drops it after.
\<close>

definition lock_key :: "string \<Rightarrow> string" where
  "lock_key lock_name = ''locks:'' @ lock_name"

definition live_lock :: "int \<Rightarrow> string \<Rightarrow> redis_store \<Rightarrow> (string \<times> int) option" where
  "live_lock now key s =
     (case map_of (locks s) key of
        None \<Rightarrow> None
      | Some (v, expires) \<Rightarrow> (if now \<le> expires then Some (v, expires) else None))"

definition acquire_lock :: "int \<Rightarrow> string \<Rightarrow> int \<Rightarrow> backend \<Rightarrow> bool \<times> backend" where
  "acquire_lock now lock_name timeout b =
     (case b of
        Unreachable \<Rightarrow> (False, Unreachable)
      | Reachable s \<Rightarrow>
          (let key = lock_key lock_name; identifier = timestamp_text now
           in if timeout \<le> 0 then (False, b)
              else (case live_lock now key s of
                      Some held \<Rightarrow> (False, b)
                    | None \<Rightarrow>
                        (True, Reachable (s\<lparr> locks := AList.update key (identifier, now + timeout) (locks s) \<rparr>)))))"

definition release_lock :: "int \<Rightarrow> string \<Rightarrow> backend \<Rightarrow> bool \<times> backend" where
  "release_lock now lock_name b =
     (case b of
        Unreachable \<Rightarrow> (False, Unreachable)
      | Reachable s \<Rightarrow>
          (let key = lock_key lock_name
           in (live_lock now key s \<noteq> None,
               Reachable (s\<lparr> locks := AList.delete key (locks s) \<rparr>))))"

section \<open>The scheduler's failure path (src/src/services/scheduler.py)\<close>

text \<open>
  Python indexing of the ladder: a negative index counts from the end, an index out of
  range raises \<^verbatim>\<open>IndexError\<close>.
\<close>

definition py_index :: "int list \<Rightarrow> int \<Rightarrow> error + int" where
  "py_index retry_delays i =
     (if i < - int (length retry_delays) \<or> int (length retry_delays) \<le> i then Inl IndexError
      else if i < 0 then Inr (retry_delays ! nat (int (length retry_delays) + i))
      else Inr (retry_delays ! nat i))"

definition calculate_retry_delay :: "int list \<Rightarrow> int \<Rightarrow> error + int" where
  "calculate_retry_delay retry_delays retry_count_now =
     (if retry_count_now \<le> int (length retry_delays) then
        py_index retry_delays (retry_count_now - 1)
      else
        (case py_index retry_delays (- 1) of
           Inl e \<Rightarrow> Inl e
         | Inr base_delay \<Rightarrow>
             Inr (min (base_delay * 2 ^ nat (retry_count_now - int (length retry_delays))) 3600)))"

text \<open>
  The scheduler is built with the \<^verbatim>\<open>ReminderService\<close> of this source
  (src/src/api/reminder_api.py) and persists through
  \<^verbatim>\<open>self.reminder_service.update_reminder(reminder)\<close>, a call with one argument. The
  method is \<^verbatim>\<open>update_reminder(self, reminder_id, update_data)\<close>: binding the
  arguments fails, and the call raises \<^verbatim>\<open>TypeError\<close> whatever the reminder is.
\<close>

definition update_reminder_one_argument :: "reminder \<Rightarrow> error + unit" where
  "update_reminder_one_argument r = Inl TypeError"

text \<open>
  \<^verbatim>\<open>_handle_failed_reminder\<close>. Every exception inside the \<^verbatim>\<open>try\<close> is logged
  and ends the call, the assignments made so far staying on the reminder. The status
  assigned is the enum member. Counters of the metrics are not modelled.
\<close>

definition handle_failed_reminder ::
  "int list \<Rightarrow> int \<Rightarrow> reminder \<Rightarrow> string option \<Rightarrow> backend \<Rightarrow> reminder \<times> backend" where
  "handle_failed_reminder retry_delays now r error_msg b =
     (let r1 = r\<lparr> retry_count := retry_count r + 1, error_message := error_msg \<rparr>
      in if retry_count r1 < max_retries r1 then
           (case calculate_retry_delay retry_delays (retry_count r1) of
              Inl e \<Rightarrow> (r1, b)
            | Inr retry_delay \<Rightarrow>
                (let r2 = r1\<lparr> status := RETRY_member \<rparr>
                 in case update_reminder_one_argument r2 of
                      Inl e \<Rightarrow> (r2, b)
                    | Inr persisted \<Rightarrow>
                        (case enqueue_retry_reminder now r2 retry_delay b of
                           Inl e \<Rightarrow> (r2, b)
                         | Inr b' \<Rightarrow> (r2, b'))))
         else
           (let r2 = r1\<lparr> status := FAILED_member \<rparr>
            in case update_reminder_one_argument r2 of
                 Inl e \<Rightarrow> (r2, b)
               | Inr persisted \<Rightarrow> (r2, b)))"

section \<open>Concrete inputs\<close>

text \<open>
  A reminder as the service holds it after a successful send, and an empty Redis; the
  concrete evaluations below vary single fields of them.
\<close>

definition sample_reminder :: reminder where
  "sample_reminder =
     \<lparr> reminder_id = Some 1001, patient_id = 1, reminder_type = ''medication_reminder'',
       delivery_method = SMS, status = SENT, scheduled_time = Some 1000,
       priority = ''normal'', custom_message = None, metadata = [],
       created_at = Some 900, updated_at = Some 1000, sent_at = Some 1000,
       delivered_at = None, retry_count = 0, max_retries = 3, retry_interval = 300,
       twilio_sid = Some ''SM1'', error_message = None \<rparr>"

definition empty_store :: redis_store where
  "empty_store =
     \<lparr> scheduled_reminders = [], immediate_reminders = [], retry_reminders = [], locks = [] \<rparr>"

text \<open>
  A reminder that has never been sent, with a budget of four retries, and an update that
  only lowers \<^verbatim>\<open>max_retries\<close>.
\<close>

definition fresh_reminder :: reminder where
  "fresh_reminder =
     sample_reminder\<lparr> status := SCHEDULED, max_retries := 4, sent_at := None, twilio_sid := None \<rparr>"

definition lower_budget :: reminder_update where
  "lower_budget =
     \<lparr> u_scheduled_time = None, u_priority = None, u_custom_message = None, u_metadata = None,
       u_max_retries = Some 1, u_retry_interval = None \<rparr>"

definition sample_create :: reminder_create where
  "sample_create =
     \<lparr> c_patient_id = 1, c_reminder_type = ''medication_reminder'', c_delivery_method = SMS,
       c_scheduled_time = 2120, c_priority = ''normal'', c_custom_message = None,
       c_metadata = None, c_max_retries = 3, c_retry_interval = 300 \<rparr>"

definition sample_patient :: patient where
  "sample_patient = \<lparr> phone = ''+237600000000'', preferred_language = Some ''fr'' \<rparr>"

text \<open>
  A text for queue members, for the evaluations: the decimal id (the order among
  members of equal score is then that of these texts).
\<close>

definition id_text :: "queue_entry \<Rightarrow> string" where
  "id_text e = (case e_id e of None \<Rightarrow> ''null'' | Some i \<Rightarrow> str_int i)"

section \<open>Properties\<close>

subsection \<open>Delivery-status callbacks\<close>

lemma map_of_status_mapping_cases:
  "map_of status_mapping s =
     (if s = ''delivered'' then Some DELIVERED
      else if s = ''sent'' then Some SENT
      else if s = ''failed'' \<or> s = ''undelivered'' then Some FAILED
      else None)"
  by (simp add: status_mapping_def)

text \<open>
  The status and the retry count after a callback that returns, for a reminder that was
  found: the mapped status, except that a mapped FAILED which changes the status turns
  into RETRY, with one more retry counted, while the budget lasts.
\<close>

lemma update_delivery_status_result:
  assumes "update_delivery_status now q (Some r) ps ec em = Inr (ok, found', q')"
  shows "ok \<and> (\<exists>r'. found' = Some r' \<and> max_retries r' = max_retries r \<and>
           (case map_of status_mapping (lower ps) of
              None \<Rightarrow> r' = r \<and> q' = q
            | Some s \<Rightarrow>
                if s = FAILED \<and> status r \<noteq> FAILED \<and> retry_count r < max_retries r
                then status r' = RETRY \<and> retry_count r' = retry_count r + 1
                else status r' = s \<and> retry_count r' = retry_count r \<and> q' = q))"
  using assms
  by (auto simp: update_delivery_status_def schedule_retry_def Let_def
        map_of_status_mapping_cases split: if_splits sum.splits)

text \<open>
  A callback raises only in the retry branch, when the new due time cannot be
  represented; the reminder is then in RETRY with one more retry counted.
\<close>

lemma update_delivery_status_raises:
  assumes "update_delivery_status now q (Some r) ps ec em = Inl (e, r')"
  shows "lower ps \<in> set [''failed'', ''undelivered''] \<and> status r \<noteq> FAILED \<and>
         retry_count r < max_retries r \<and>
         (\<exists>m. e = OverflowError m \<and> datetime_plus now (retry_interval r) = Inl m) \<and>
         status r' = RETRY \<and> retry_count r' = retry_count r + 1 \<and>
         max_retries r' = max_retries r"
  using assms
  by (auto simp: update_delivery_status_def schedule_retry_def Let_def
        map_of_status_mapping_cases split: if_splits sum.splits)

lemma update_delivery_status_same_status:
  assumes "case map_of status_mapping (lower ps) of None \<Rightarrow> True | Some s \<Rightarrow> s = status r"
  shows "update_delivery_status now q (Some r) ps ec em = Inr (True, Some r, q)"
  using assms by (simp add: update_delivery_status_def split: option.splits)

text \<open>
  C10. A callback whose provider status, lower-cased, is none of delivered, sent, failed,
  undelivered leaves the reminder found for the external id exactly as it was (every
  field), leaves the queue as it was, and returns \<^verbatim>\<open>True\<close>.
\<close>

theorem update_delivery_status_unknown_status_frame:
  assumes "lower provider_status \<notin> set [''delivered'', ''sent'', ''failed'', ''undelivered'']"
  shows "update_delivery_status now q (Some r) provider_status error_code error_msg
           = Inr (True, Some r, q)"
proof -
  have "map_of status_mapping (lower provider_status) = None"
    using assms by (simp add: map_of_status_mapping_cases)
  then show ?thesis
    by (simp add: update_delivery_status_def)
qed

theorem update_delivery_status_unknown_status_frame_witness:
  "lower ''Queued'' \<notin> set [''delivered'', ''sent'', ''failed'', ''undelivered''] \<and>
   update_delivery_status 2000 (Some []) (Some sample_reminder) ''Queued'' None None
     = Inr (True, Some sample_reminder, Some [])"
  using update_delivery_status_unknown_status_frame
          [of "''Queued''" 2000 "Some []" sample_reminder None None]
  by (simp add: lower_def lower_char_def)

text \<open>
  C1, as stated, fails: a DELIVERED reminder with retry budget left that receives a
  \<^verbatim>\<open>failed\<close> callback ends in RETRY, which is not terminal; and the explicit
  retry operation takes a FAILED reminder to RETRY.
\<close>

theorem terminal_regression_counterexample:
  "terminal (status (sample_reminder\<lparr>status := DELIVERED\<rparr>)) \<and>
   update_delivery_status 2000 (Some []) (Some (sample_reminder\<lparr>status := DELIVERED\<rparr>))
       ''failed'' None None
     = Inr (True,
            Some (sample_reminder\<lparr>status := RETRY, updated_at := Some 2000,
                    error_message := Some ''Erreur Twilio: None'', retry_count := 1,
                    scheduled_time := Some 2300\<rparr>),
            Some [(entry_of sample_reminder, 2300)]) \<and>
   \<not> terminal RETRY \<and>
   terminal (status (sample_reminder\<lparr>status := FAILED\<rparr>)) \<and>
   retry_failed_reminder 2000 (Some []) (Some (sample_reminder\<lparr>status := FAILED\<rparr>)) False
     = Inr (True,
            Some (sample_reminder\<lparr>status := RETRY, scheduled_time := Some 2300, updated_at := Some 2000\<rparr>),
            Some [(entry_of sample_reminder, 2300)])"
  by code_simp

text \<open>
  C1, amended. A callback for a reminder in a terminal status (SENT, DELIVERED,
  CANCELLED, FAILED) leaves it in a terminal status in every case but one: the provider
  status is \<^verbatim>\<open>failed\<close> or \<^verbatim>\<open>undelivered\<close>, the reminder is not already FAILED,
  and \<open>retry_count < max_retries\<close>. In that case the reminder goes to RETRY and one
  more retry is counted. So a FAILED reminder always stays terminal, and a DELIVERED one
  stays terminal unless a failure callback arrives while budget is left.
\<close>

theorem update_delivery_status_terminal:
  assumes "terminal (status r)"
    and "update_delivery_status now q (Some r) ps ec em = Inr (ok, Some r', q')"
  shows "(terminal (status r') \<longleftrightarrow>
            \<not> (lower ps \<in> set [''failed'', ''undelivered''] \<and> status r \<noteq> FAILED \<and>
               retry_count r < max_retries r)) \<and>
         (terminal (status r') \<or> (status r' = RETRY \<and> retry_count r' = retry_count r + 1))"
  using assms(1) update_delivery_status_result [OF assms(2)]
  by (auto simp: terminal_def map_of_status_mapping_cases split: if_splits)

theorem update_delivery_status_terminal_witness:
  "terminal (status (sample_reminder\<lparr>status := FAILED\<rparr>)) \<and>
   update_delivery_status 2000 (Some []) (Some (sample_reminder\<lparr>status := FAILED\<rparr>))
       ''delivered'' None None
     = Inr (True,
        Some (sample_reminder\<lparr>status := DELIVERED, updated_at := Some 2000, delivered_at := Some 2000\<rparr>),
        Some []) \<and>
   terminal (status (sample_reminder\<lparr>status := DELIVERED, updated_at := Some 2000,
                                       delivered_at := Some 2000\<rparr>))"
proof -
  have h1: "terminal (status (sample_reminder\<lparr>status := FAILED\<rparr>))"
    by (simp add: terminal_def)
  have h2: "update_delivery_status 2000 (Some []) (Some (sample_reminder\<lparr>status := FAILED\<rparr>))
              ''delivered'' None None
            = Inr (True,
               Some (sample_reminder\<lparr>status := DELIVERED, updated_at := Some 2000,
                                      delivered_at := Some 2000\<rparr>),
               Some [])"
    by code_simp
  from update_delivery_status_terminal [OF h1 h2] h1 h2 show ?thesis
    by (simp add: lower_def lower_char_def)
qed

text \<open>
  When the callback raises instead (the retry's due time cannot be represented), the
  reminder it leaves behind is in RETRY as well.
\<close>

lemma update_delivery_status_terminal_raised:
  assumes "update_delivery_status now q (Some r) ps ec em = Inl (e, r')"
  shows "status r' = RETRY \<and> retry_count r' = retry_count r + 1 \<and>
         lower ps \<in> set [''failed'', ''undelivered''] \<and> status r \<noteq> FAILED \<and>
         retry_count r < max_retries r"
  using update_delivery_status_raises [OF assms] by simp

text \<open>
  C5 fails on the code. A \<^verbatim>\<open>failed\<close> callback for a SENT reminder with budget
  left schedules a retry, which leaves the status RETRY; the same callback once more
  finds RETRY different from the mapped FAILED and schedules a second retry. After one
  callback the retry count is 1, after the replay it is 2.
\<close>

theorem duplicate_failed_callback_counts_twice:
  "update_delivery_status 2000 (Some []) (Some sample_reminder) ''failed'' (Some ''30003'') None
     = Inr (True,
        Some (sample_reminder\<lparr>status := RETRY, updated_at := Some 2000,
                error_message := Some ''Erreur Twilio: 30003'', retry_count := 1,
                scheduled_time := Some 2300\<rparr>),
        Some [(entry_of sample_reminder, 2300)]) \<and>
   update_delivery_status 2000 (Some [(entry_of sample_reminder, 2300)])
       (Some (sample_reminder\<lparr>status := RETRY, updated_at := Some 2000,
                error_message := Some ''Erreur Twilio: 30003'', retry_count := 1,
                scheduled_time := Some 2300\<rparr>))
       ''failed'' (Some ''30003'') None
     = Inr (True,
        Some (sample_reminder\<lparr>status := RETRY, updated_at := Some 2000,
                error_message := Some ''Erreur Twilio: 30003'', retry_count := 2,
                scheduled_time := Some 2300\<rparr>),
        Some [(entry_of sample_reminder, 2300)])"
  by code_simp

text \<open>
  Every other callback is a no-op when replayed: whenever the first call does not take
  the retry branch, a second call with the same arguments (at any later time) returns
  the same reminder and the same queue.
\<close>

lemma update_delivery_status_replay_noop:
  assumes "\<not> (lower ps \<in> set [''failed'', ''undelivered''] \<and> status r \<noteq> FAILED \<and>
              retry_count r < max_retries r)"
    and "update_delivery_status now q (Some r) ps ec em = Inr (ok, found', q')"
  shows "update_delivery_status later q' found' ps ec em = Inr (ok, found', q')"
proof -
  from update_delivery_status_result [OF assms(2)]
  obtain r' where ok: ok and f: "found' = Some r'"
    and c: "case map_of status_mapping (lower ps) of
              None \<Rightarrow> r' = r \<and> q' = q
            | Some s \<Rightarrow>
                if s = FAILED \<and> status r \<noteq> FAILED \<and> retry_count r < max_retries r
                then status r' = RETRY \<and> retry_count r' = retry_count r + 1
                else status r' = s \<and> retry_count r' = retry_count r \<and> q' = q"
    by blast
  have "case map_of status_mapping (lower ps) of None \<Rightarrow> True | Some s \<Rightarrow> s = status r'"
  proof (cases "map_of status_mapping (lower ps)")
    case None
    then show ?thesis by simp
  next
    case (Some s)
    have "\<not> (s = FAILED \<and> status r \<noteq> FAILED \<and> retry_count r < max_retries r)"
      using assms(1) Some by (auto simp: map_of_status_mapping_cases split: if_splits)
    with c Some show ?thesis by simp
  qed
  from update_delivery_status_same_status [OF this] ok f show ?thesis by simp
qed

subsection \<open>Cancellation\<close>

text \<open>
  \<^verbatim>\<open>find\<close> over a list sorted by a key returns, among the elements that satisfy the
  test, one of least key.
\<close>

lemma find_sorted_least:
  assumes "sorted (map k xs)" and "find P (map f xs) = Some m"
  shows "\<exists>x\<in>set xs. f x = m \<and> P m \<and> (\<forall>y\<in>set xs. P (f y) \<longrightarrow> k x \<le> k y)"
proof -
  from assms(2) obtain i where i: "i < length xs" "P (f (xs ! i))" "m = f (xs ! i)"
    and first: "\<forall>j<i. \<not> P (f (xs ! j))"
    by (auto simp: find_Some_iff)
  have "k (xs ! i) \<le> k y" if "y \<in> set xs" "P (f y)" for y
  proof -
    from that(1) obtain j where j: "j < length xs" "y = xs ! j"
      by (auto simp: in_set_conv_nth)
    have "i \<le> j" using first j(2) that(2) by (meson not_le)
    then have "map k xs ! i \<le> map k xs ! j"
      using assms(1) j(1) by (simp add: sorted_iff_nth_mono)
    then show ?thesis using i(1) j by simp
  qed
  then show ?thesis using i by (intro bexI [of _ "xs ! i"]) auto
qed

text \<open>
  What \<^verbatim>\<open>_remove_from_queue\<close> does to a queue: nothing when no member carries the
  id; otherwise it deletes exactly the member that comes first in the order of Redis
  (least score, then least text) among those that carry the id.
\<close>

lemma remove_from_queue_effect:
  "\<exists>z'. remove_from_queue member_text rid (Some z) = Some z' \<and>
     (if \<forall>p\<in>set z. e_id (fst p) \<noteq> rid then z' = z
      else \<exists>m s. (m, s) \<in> set z \<and> e_id m = rid \<and> z' = filter (\<lambda>p. fst p \<noteq> m) z \<and>
             (\<forall>p\<in>set z. e_id (fst p) = rid \<longrightarrow>
                (s, member_text m) \<le> (snd p, member_text (fst p))))"
proof (cases "find (\<lambda>m. e_id m = rid) (zrange member_text z)")
  case None
  then have "\<forall>p\<in>set z. e_id (fst p) \<noteq> rid"
    by (auto simp: find_None_iff zrange_def)
  with None show ?thesis
    by (simp add: remove_from_queue_def)
next
  case (Some m)
  let ?k = "\<lambda>p. (snd p, member_text (fst p))"
  have "find (\<lambda>m. e_id m = rid) (map fst (sort_key ?k z)) = Some m"
    using Some by (simp add: zrange_def)
  from find_sorted_least [OF sorted_sort_key this]
  obtain x where x: "x \<in> set z" "fst x = m" "e_id m = rid"
    and least: "\<forall>y\<in>set z. e_id (fst y) = rid \<longrightarrow> ?k x \<le> ?k y"
    by auto
  have "(m, snd x) \<in> set z" using x by (metis prod.collapse)
  moreover have "\<not> (\<forall>p\<in>set z. e_id (fst p) \<noteq> rid)" using x by auto
  moreover have "remove_from_queue member_text rid (Some z) = Some (filter (\<lambda>p. fst p \<noteq> m) z)"
    using Some by (simp add: remove_from_queue_def zrem_def)
  ultimately show ?thesis using x least by auto
qed

text \<open>
  C4, as stated, fails: cancelling a FAILED reminder succeeds and makes it CANCELLED.
\<close>

theorem cancel_failed_reminder_counterexample:
  "status (sample_reminder\<lparr>status := FAILED\<rparr>) \<notin> set [PENDING, SCHEDULED, RETRY] \<and>
   cancel_reminder id_text 2000 (Some []) 1001 (Some (sample_reminder\<lparr>status := FAILED\<rparr>))
     = Inr (True, Some (sample_reminder\<lparr>status := CANCELLED, updated_at := Some 2000\<rparr>), Some [])"
  by code_simp

text \<open>
  C4, amended. For a reminder that is found, cancel raises (\<^verbatim>\<open>ValueError\<close>) if and
  only if the status is SENT or DELIVERED, and then nothing is written. In every other
  status (PENDING, SCHEDULED, RETRY, and also FAILED and CANCELLED) it succeeds: the
  status becomes CANCELLED and \<^verbatim>\<open>updated_at\<close> is set, every other field staying;
  without a Redis client there is no queue to change; with one, the queue loses exactly
  one member that carries the id, the first of them in the order of Redis (least score,
  then least text), when there is any, and no other member. So no member with the id is
  left when at most one carried it, and a second member with the same id stays.
\<close>

theorem cancel_reminder_succeeds_iff:
  "(isl (cancel_reminder member_text now q rid (Some r)) \<longleftrightarrow> status r \<in> set [SENT, DELIVERED]) \<and>
   (status r \<notin> set [SENT, DELIVERED] \<longrightarrow>
      (\<exists>q'. cancel_reminder member_text now q rid (Some r)
               = Inr (True, Some (r\<lparr>status := CANCELLED, updated_at := Some now\<rparr>), q') \<and>
            (q = None \<longrightarrow> q' = None) \<and>
            (\<forall>z. q = Some z \<longrightarrow>
               (\<exists>z'. q' = Some z' \<and>
                  (if \<forall>p\<in>set z. e_id (fst p) \<noteq> Some rid then z' = z
                   else \<exists>m s. (m, s) \<in> set z \<and> e_id m = Some rid \<and>
                          z' = filter (\<lambda>p. fst p \<noteq> m) z \<and>
                          (\<forall>p\<in>set z. e_id (fst p) = Some rid \<longrightarrow>
                             (s, member_text m) \<le> (snd p, member_text (fst p)))) \<and>
                  (\<forall>p\<in>set z. e_id (fst p) \<noteq> Some rid \<longrightarrow> p \<in> set z') \<and>
                  ((\<forall>p\<in>set z. \<forall>p'\<in>set z.
                      e_id (fst p) = Some rid \<and> e_id (fst p') = Some rid \<longrightarrow> fst p = fst p') \<longrightarrow>
                   (\<forall>p\<in>set z'. e_id (fst p) \<noteq> Some rid))))))"
proof -
  have guard: "isl (cancel_reminder member_text now q rid (Some r)) \<longleftrightarrow> status r \<in> set [SENT, DELIVERED]"
    by (simp add: cancel_reminder_def Let_def)
  have ok: "cancel_reminder member_text now q rid (Some r)
              = Inr (True, Some (r\<lparr>status := CANCELLED, updated_at := Some now\<rparr>),
                     remove_from_queue member_text (Some rid) q)"
    if "status r \<notin> set [SENT, DELIVERED]"
    using that by (simp add: cancel_reminder_def Let_def)
  have none: "remove_from_queue member_text (Some rid) None = None"
    by (simp add: remove_from_queue_def)
  have some: "\<exists>z'. remove_from_queue member_text (Some rid) (Some z) = Some z' \<and>
                  (if \<forall>p\<in>set z. e_id (fst p) \<noteq> Some rid then z' = z
                   else \<exists>m s. (m, s) \<in> set z \<and> e_id m = Some rid \<and>
                          z' = filter (\<lambda>p. fst p \<noteq> m) z \<and>
                          (\<forall>p\<in>set z. e_id (fst p) = Some rid \<longrightarrow>
                             (s, member_text m) \<le> (snd p, member_text (fst p)))) \<and>
                  (\<forall>p\<in>set z. e_id (fst p) \<noteq> Some rid \<longrightarrow> p \<in> set z') \<and>
                  ((\<forall>p\<in>set z. \<forall>p'\<in>set z.
                      e_id (fst p) = Some rid \<and> e_id (fst p') = Some rid \<longrightarrow> fst p = fst p') \<longrightarrow>
                   (\<forall>p\<in>set z'. e_id (fst p) \<noteq> Some rid))" for z
  proof -
    from remove_from_queue_effect [of member_text "Some rid" z]
    obtain z' where z': "remove_from_queue member_text (Some rid) (Some z) = Some z'"
      and eff: "if \<forall>p\<in>set z. e_id (fst p) \<noteq> Some rid then z' = z
                else \<exists>m s. (m, s) \<in> set z \<and> e_id m = Some rid \<and>
                       z' = filter (\<lambda>p. fst p \<noteq> m) z \<and>
                       (\<forall>p\<in>set z. e_id (fst p) = Some rid \<longrightarrow>
                          (s, member_text m) \<le> (snd p, member_text (fst p)))"
      by blast
    have others: "\<forall>p\<in>set z. e_id (fst p) \<noteq> Some rid \<longrightarrow> p \<in> set z'"
      using eff by (auto split: if_splits)
    have single: "\<forall>p\<in>set z'. e_id (fst p) \<noteq> Some rid"
      if u: "\<forall>p\<in>set z. \<forall>p'\<in>set z.
               e_id (fst p) = Some rid \<and> e_id (fst p') = Some rid \<longrightarrow> fst p = fst p'"
    proof (cases "\<forall>p\<in>set z. e_id (fst p) \<noteq> Some rid")
      case True
      with eff show ?thesis by simp
    next
      case False
      with eff obtain m s where m: "(m, s) \<in> set z" "e_id m = Some rid"
        "z' = filter (\<lambda>p. fst p \<noteq> m) z"
        by auto
      show ?thesis
      proof
        fix p assume "p \<in> set z'"
        then have p: "p \<in> set z" "fst p \<noteq> m" using m(3) by auto
        show "e_id (fst p) \<noteq> Some rid"
        proof
          assume "e_id (fst p) = Some rid"
          moreover have "e_id (fst (m, s)) = Some rid" using m(2) by simp
          ultimately have "fst p = fst (m, s)" using u p(1) m(1) by blast
          with p(2) show False by simp
        qed
      qed
    qed
    from z' eff others single show ?thesis by blast
  qed
  show ?thesis
  proof (intro conjI impI)
    show "isl (cancel_reminder member_text now q rid (Some r)) \<longleftrightarrow> status r \<in> set [SENT, DELIVERED]"
      by (rule guard)
  next
    assume s: "status r \<notin> set [SENT, DELIVERED]"
    show "\<exists>q'. cancel_reminder member_text now q rid (Some r)
               = Inr (True, Some (r\<lparr>status := CANCELLED, updated_at := Some now\<rparr>), q') \<and>
            (q = None \<longrightarrow> q' = None) \<and>
            (\<forall>z. q = Some z \<longrightarrow>
               (\<exists>z'. q' = Some z' \<and>
                  (if \<forall>p\<in>set z. e_id (fst p) \<noteq> Some rid then z' = z
                   else \<exists>m s. (m, s) \<in> set z \<and> e_id m = Some rid \<and>
                          z' = filter (\<lambda>p. fst p \<noteq> m) z \<and>
                          (\<forall>p\<in>set z. e_id (fst p) = Some rid \<longrightarrow>
                             (s, member_text m) \<le> (snd p, member_text (fst p)))) \<and>
                  (\<forall>p\<in>set z. e_id (fst p) \<noteq> Some rid \<longrightarrow> p \<in> set z') \<and>
                  ((\<forall>p\<in>set z. \<forall>p'\<in>set z.
                      e_id (fst p) = Some rid \<and> e_id (fst p') = Some rid \<longrightarrow> fst p = fst p') \<longrightarrow>
                   (\<forall>p\<in>set z'. e_id (fst p) \<noteq> Some rid))))"
    proof (intro exI [of _ "remove_from_queue member_text (Some rid) q"] conjI allI impI)
      show "cancel_reminder member_text now q rid (Some r)
              = Inr (True, Some (r\<lparr>status := CANCELLED, updated_at := Some now\<rparr>),
                     remove_from_queue member_text (Some rid) q)"
        by (rule ok [OF s])
    next
      assume "q = None"
      then show "remove_from_queue member_text (Some rid) q = None" by (simp add: none)
    next
      fix z assume "q = Some z"
      then show "\<exists>z'. remove_from_queue member_text (Some rid) q = Some z' \<and>
                  (if \<forall>p\<in>set z. e_id (fst p) \<noteq> Some rid then z' = z
                   else \<exists>m s. (m, s) \<in> set z \<and> e_id m = Some rid \<and>
                          z' = filter (\<lambda>p. fst p \<noteq> m) z \<and>
                          (\<forall>p\<in>set z. e_id (fst p) = Some rid \<longrightarrow>
                             (s, member_text m) \<le> (snd p, member_text (fst p)))) \<and>
                  (\<forall>p\<in>set z. e_id (fst p) \<noteq> Some rid \<longrightarrow> p \<in> set z') \<and>
                  ((\<forall>p\<in>set z. \<forall>p'\<in>set z.
                      e_id (fst p) = Some rid \<and> e_id (fst p') = Some rid \<longrightarrow> fst p = fst p') \<longrightarrow>
                   (\<forall>p\<in>set z'. e_id (fst p) \<noteq> Some rid))"
        using some [of z] by simp
    qed
  qed
qed

text \<open>
  At concrete inputs: a RETRY reminder with its one entry in the queue is cancelled and
  the queue is empty afterwards; a SENT reminder is refused; and of two entries that
  carry the id, the earlier one goes and the later one stays.
\<close>

theorem cancel_reminder_succeeds_iff_witness:
  "status (sample_reminder\<lparr>status := RETRY\<rparr>) \<notin> set [SENT, DELIVERED] \<and>
   cancel_reminder id_text 2000 (Some [(entry_of sample_reminder, 2300)]) 1001
       (Some (sample_reminder\<lparr>status := RETRY\<rparr>))
     = Inr (True, Some (sample_reminder\<lparr>status := CANCELLED, updated_at := Some 2000\<rparr>), Some []) \<and>
   isl (cancel_reminder id_text 2000 (Some []) 1001 (Some sample_reminder))"
proof -
  let ?r = "sample_reminder\<lparr>status := RETRY\<rparr>"
  let ?z = "[(entry_of sample_reminder, 2300)]"
  have h: "status ?r \<notin> set [SENT, DELIVERED]"
    by simp
  have s: "status sample_reminder \<in> set [SENT, DELIVERED]"
    by (simp add: sample_reminder_def)
  have one: "\<forall>p\<in>set ?z. \<forall>p'\<in>set ?z.
               e_id (fst p) = Some 1001 \<and> e_id (fst p') = Some 1001 \<longrightarrow> fst p = fst p'"
    by simp
  note t = cancel_reminder_succeeds_iff [of id_text 2000 "Some ?z" 1001 ?r]
  from t h obtain q' where c: "cancel_reminder id_text 2000 (Some ?z) 1001 (Some ?r)
        = Inr (True, Some (?r\<lparr>status := CANCELLED, updated_at := Some 2000\<rparr>), q')"
    and q: "\<forall>z. Some ?z = Some z \<longrightarrow>
               (\<exists>z'. q' = Some z' \<and>
                  ((\<forall>p\<in>set z. \<forall>p'\<in>set z.
                      e_id (fst p) = Some 1001 \<and> e_id (fst p') = Some 1001 \<longrightarrow> fst p = fst p') \<longrightarrow>
                   (\<forall>p\<in>set z'. e_id (fst p) \<noteq> Some 1001)) \<and> set z' \<subseteq> set z)"
    by (auto split: if_splits)
  from q one obtain z' where z': "q' = Some z'" "\<forall>p\<in>set z'. e_id (fst p) \<noteq> Some 1001"
    "set z' \<subseteq> set ?z"
    by blast
  have "z' = []"
  proof (cases z')
    case Nil
    then show ?thesis .
  next
    case (Cons p ps)
    with z'(3) have "p = (entry_of sample_reminder, 2300)" by simp
    moreover from Cons z'(2) have "e_id (fst p) \<noteq> Some 1001" by simp
    ultimately show ?thesis by (simp add: entry_of_def sample_reminder_def)
  qed
  with c z'(1) have "cancel_reminder id_text 2000 (Some ?z) 1001 (Some ?r)
        = Inr (True, Some (sample_reminder\<lparr>status := CANCELLED, updated_at := Some 2000\<rparr>), Some [])"
    by simp
  moreover have "isl (cancel_reminder id_text 2000 (Some []) 1001 (Some sample_reminder))"
    using cancel_reminder_succeeds_iff [of id_text 2000 "Some []" 1001 sample_reminder] s by blast
  ultimately show ?thesis using h by blast
qed

lemma cancel_reminder_second_entry_stays:
  "cancel_reminder id_text 2000
       (Some [(entry_of (sample_reminder\<lparr>priority := ''high''\<rparr>), 2600),
              (entry_of sample_reminder, 2300)])
       1001 (Some (sample_reminder\<lparr>status := RETRY\<rparr>))
     = Inr (True, Some (sample_reminder\<lparr>status := CANCELLED, updated_at := Some 2000\<rparr>),
            Some [(entry_of (sample_reminder\<lparr>priority := ''high''\<rparr>), 2600)])"
  by code_simp

subsection \<open>Retry delay\<close>

text \<open>
  C6. For an attempt number \<open>n \<ge> 1\<close> and a ladder that is not empty, the delay is
  \<open>retry_delays[n-1]\<close> when \<open>n \<le> len(retry_delays)\<close>, and otherwise
  \<open>min(retry_delays[-1] * 2^(n - len(retry_delays)), 3600)\<close>.
\<close>

theorem calculate_retry_delay_policy:
  assumes "1 \<le> n" and "retry_delays \<noteq> []"
  shows "calculate_retry_delay retry_delays n =
           Inr (if n \<le> int (length retry_delays) then retry_delays ! nat (n - 1)
                else min (last retry_delays * 2 ^ nat (n - int (length retry_delays))) 3600)"
proof (cases "n \<le> int (length retry_delays)")
  case True
  with assms show ?thesis
    by (simp add: calculate_retry_delay_def py_index_def)
next
  case False
  have "py_index retry_delays (- 1) = Inr (last retry_delays)"
    using assms(2)
    by (auto simp: py_index_def last_conv_nth nat_diff_distrib' simp flip: of_nat_Suc)
  with False show ?thesis
    by (simp add: calculate_retry_delay_def)
qed

theorem calculate_retry_delay_policy_witness:
  "(1::int) \<le> 4 \<and> [300, 900, 1800] \<noteq> ([]::int list) \<and>
   calculate_retry_delay [300, 900, 1800] 4 = Inr 3600 \<and>
   calculate_retry_delay [300, 900, 1800] 2 = Inr 900"
  using calculate_retry_delay_policy [of 4 "[300, 900, 1800]"]
        calculate_retry_delay_policy [of 2 "[300, 900, 1800]"]
  by simp

text \<open>With an empty ladder every attempt number \<open>n \<ge> 1\<close> raises \<^verbatim>\<open>IndexError\<close>.\<close>

lemma calculate_retry_delay_empty_ladder:
  "1 \<le> n \<Longrightarrow> calculate_retry_delay [] n = Inl IndexError"
  by (simp add: calculate_retry_delay_def py_index_def)

subsection \<open>The retry bookkeeping invariant\<close>

lemma create_reminder_retry_inv:
  "valid_ReminderCreate now c \<Longrightarrow> create_reminder now q pat new_id c = Inr (r', q') \<Longrightarrow> retry_inv r'"
  by (auto simp: valid_ReminderCreate_def create_reminder_def retry_inv_def Let_def split: option.splits)

lemma schedule_retry_retry_inv:
  assumes "retry_inv r" and "retry_count r < max_retries r"
  shows "case schedule_retry now r q of Inl (m, r') \<Rightarrow> retry_inv r' | Inr (r', q') \<Rightarrow> retry_inv r'"
  using assms by (simp add: schedule_retry_def retry_inv_def Let_def split: sum.splits)

lemma update_delivery_status_retry_inv:
  "retry_inv r \<Longrightarrow> update_delivery_status now q (Some r) ps ec em = Inr (ok, Some r', q') \<Longrightarrow> retry_inv r'"
  using update_delivery_status_result [of now q r ps ec em ok "Some r'" q']
  by (auto simp: retry_inv_def split: option.splits if_splits)

lemma update_delivery_status_raised_retry_inv:
  "retry_inv r \<Longrightarrow> update_delivery_status now q (Some r) ps ec em = Inl (e, r') \<Longrightarrow> retry_inv r'"
  using update_delivery_status_raises [of now q r ps ec em e r']
  by (auto simp: retry_inv_def)

lemma finish_dispatch_retry_inv:
  assumes "retry_inv (fst x)"
  shows "case finish_dispatch now q x of Inl (m, r') \<Rightarrow> retry_inv r' | Inr (r', q') \<Rightarrow> retry_inv r'"
proof (cases x)
  case (Pair r res)
  with assms have i: "retry_inv r" by simp
  show ?thesis
  proof (cases "\<not> res \<and> retry_count r < max_retries r")
    case True
    have "retry_inv (r\<lparr>status := FAILED\<rparr>)" "retry_count (r\<lparr>status := FAILED\<rparr>) < max_retries (r\<lparr>status := FAILED\<rparr>)"
      using i True by (simp_all add: retry_inv_def)
    from schedule_retry_retry_inv [OF this, of now q] True Pair show ?thesis
      by (auto simp: finish_dispatch_def Let_def retry_inv_def split: sum.splits)
  next
    case False
    with i Pair show ?thesis
      by (auto simp: finish_dispatch_def Let_def retry_inv_def)
  qed
qed

lemma send_sms_retry_inv: "retry_inv r \<Longrightarrow> retry_inv (fst (send_sms_reminder r o1))"
  by (cases o1) (simp_all add: send_sms_reminder_def retry_inv_def)

lemma send_voice_retry_inv: "retry_inv r \<Longrightarrow> retry_inv (fst (send_voice_reminder r o1))"
  by (cases o1) (simp_all add: send_voice_reminder_def retry_inv_def)

lemma process_failed_retry_inv: "retry_inv r \<Longrightarrow> retry_inv (process_failed now m r)"
  by (simp add: process_failed_def retry_inv_def)

lemma finished_retry_inv:
  assumes "case tried of Inl (m, r') \<Rightarrow> retry_inv r' | Inr (r', q') \<Rightarrow> retry_inv r'"
  shows "retry_inv (fst (case tried of
                           Inl (m, r') \<Rightarrow> (process_failed now m r', q)
                         | Inr finished \<Rightarrow> finished))"
  using assms by (auto simp: process_failed_retry_inv split: sum.splits)

text \<open>The three branches of \<^verbatim>\<open>_process_reminder\<close>, one equation each.\<close>

lemma process_reminder_sms:
  assumes "delivery_method r = SMS"
  shows "process_reminder now q (Some p) sms voice r =
     (case finish_dispatch now q (send_sms_reminder (r\<lparr>status := PENDING\<rparr>) sms) of
        Inl (m, r') \<Rightarrow> (process_failed now m r', q)
      | Inr finished \<Rightarrow> finished)"
  using assms by (simp add: process_reminder_def Let_def)

lemma process_reminder_voice:
  assumes "delivery_method r = VOICE"
  shows "process_reminder now q (Some p) sms voice r =
     (case finish_dispatch now q (send_voice_reminder (r\<lparr>status := PENDING\<rparr>) voice) of
        Inl (m, r') \<Rightarrow> (process_failed now m r', q)
      | Inr finished \<Rightarrow> finished)"
  using assms by (simp add: process_reminder_def Let_def)

lemma process_both:
  assumes "delivery_method r = BOTH"
  shows "process_reminder now q (Some p) sms voice r =
     (case finish_dispatch now q
        (fst (send_voice_reminder (fst (send_sms_reminder (r\<lparr>status := PENDING\<rparr>) sms)) voice),
         snd (send_sms_reminder (r\<lparr>status := PENDING\<rparr>) sms) \<and>
         snd (send_voice_reminder (fst (send_sms_reminder (r\<lparr>status := PENDING\<rparr>) sms)) voice)) of
        Inl (m, r') \<Rightarrow> (process_failed now m r', q)
      | Inr finished \<Rightarrow> finished)"
  using assms by (simp add: process_reminder_def Let_def split: prod.splits)

lemma process_reminder_retry_inv:
  assumes "retry_inv r"
  shows "retry_inv (fst (process_reminder now q pat sms voice r))"
proof (cases pat)
  case None
  with assms show ?thesis by (simp add: process_reminder_def process_failed_def retry_inv_def)
next
  case (Some p)
  have p: "retry_inv (r\<lparr>status := PENDING\<rparr>)" using assms by (simp add: retry_inv_def)
  consider (s) "delivery_method r = SMS" | (v) "delivery_method r = VOICE" | (b) "delivery_method r = BOTH"
    | (o) "delivery_method r \<noteq> SMS" "delivery_method r \<noteq> VOICE" "delivery_method r \<noteq> BOTH" by blast
  then show ?thesis
  proof cases
    case s
    show ?thesis unfolding Some process_reminder_sms [OF s]
      by (rule finished_retry_inv [OF finish_dispatch_retry_inv [OF send_sms_retry_inv [OF p]]])
  next
    case v
    show ?thesis unfolding Some process_reminder_voice [OF v]
      by (rule finished_retry_inv [OF finish_dispatch_retry_inv [OF send_voice_retry_inv [OF p]]])
  next
    case b
    have "retry_inv (fst (fst (send_voice_reminder (fst (send_sms_reminder (r\<lparr>status := PENDING\<rparr>) sms)) voice),
        snd (send_sms_reminder (r\<lparr>status := PENDING\<rparr>) sms) \<and>
        snd (send_voice_reminder (fst (send_sms_reminder (r\<lparr>status := PENDING\<rparr>) sms)) voice)))"
      using send_voice_retry_inv [OF send_sms_retry_inv [OF p]] by simp
    from finished_retry_inv [OF finish_dispatch_retry_inv [OF this]]
    show ?thesis unfolding Some process_both [OF b] .
  next
    case o
    with assms Some show ?thesis
      by (simp add: process_reminder_def process_failed_def retry_inv_def Let_def)
  qed
qed

lemma handle_failed_retry_inv:
  "retry_inv r \<Longrightarrow> retry_count r < max_retries r \<Longrightarrow>
   retry_inv (fst (handle_failed_reminder ds now r em b))"
  by (auto simp: handle_failed_reminder_def update_reminder_one_argument_def retry_inv_def Let_def
        split: sum.splits)

lemma update_reminder_retry_inv:
  "retry_inv r \<Longrightarrow> update_reminder member_text now q (Some r) u = Inr (Some r', q') \<Longrightarrow>
   (case u_max_retries u of None \<Rightarrow> True | Some m \<Rightarrow> retry_count r \<le> m) \<Longrightarrow> retry_inv r'"
  by (auto simp: update_reminder_def retry_inv_def Let_def split: if_splits option.splits)

lemma cancel_reminder_retry_inv:
  "retry_inv r \<Longrightarrow> cancel_reminder member_text now q rid (Some r) = Inr (ok, Some r', q') \<Longrightarrow> retry_inv r'"
  by (auto simp: cancel_reminder_def retry_inv_def Let_def split: if_splits)

lemma retry_failed_reminder_retry_inv:
  "retry_inv r \<Longrightarrow> retry_failed_reminder now q (Some r) force = Inr (ok, Some r', q') \<Longrightarrow> retry_inv r'"
  by (auto simp: retry_failed_reminder_def retry_inv_def Let_def split: if_splits sum.splits)

text \<open>
  C2, as stated, fails in two places. An update that lowers \<^verbatim>\<open>max_retries\<close> below
  the retries already counted is accepted (the bounds of \<^verbatim>\<open>ReminderUpdate\<close> are 0
  and 10, whatever the count). And the scheduler counts the failure before it compares:
  a reminder created with \<^verbatim>\<open>max_retries = 0\<close> has \<open>retry_count = 1\<close> after its
  first failure.
\<close>

theorem retry_inv_counterexample:
  "retry_inv (sample_reminder\<lparr>status := RETRY, retry_count := 2\<rparr>) \<and>
   valid_ReminderUpdate 2000 lower_budget \<and>
   update_reminder id_text 2000 (Some []) (Some (sample_reminder\<lparr>status := RETRY, retry_count := 2\<rparr>))
       lower_budget
     = Inr (Some (sample_reminder\<lparr>status := RETRY, retry_count := 2, max_retries := 1,
                    updated_at := Some 2000\<rparr>), Some []) \<and>
   \<not> retry_inv (sample_reminder\<lparr>status := RETRY, retry_count := 2, max_retries := 1,
                                  updated_at := Some 2000\<rparr>) \<and>
   retry_inv (sample_reminder\<lparr>status := SCHEDULED, max_retries := 0\<rparr>) \<and>
   handle_failed_reminder [300, 900, 1800] 2000
       (sample_reminder\<lparr>status := SCHEDULED, max_retries := 0\<rparr>) None (Reachable empty_store)
     = (sample_reminder\<lparr>status := FAILED_member, max_retries := 0, retry_count := 1\<rparr>,
        Reachable empty_store) \<and>
   \<not> retry_inv (sample_reminder\<lparr>status := FAILED_member, max_retries := 0, retry_count := 1\<rparr>)"
  by code_simp

text \<open>
  C2, amended. \<open>0 \<le> retry_count \<le> max_retries\<close> holds after a valid creation and is
  preserved by delivery-status callbacks (also on the reminder a raising callback leaves
  behind), by \<^verbatim>\<open>_process_reminder\<close>, by cancel and by the explicit retry; by the
  scheduler's failure handling when \<open>retry_count < max_retries\<close> held before the
  failure; and by an update when it leaves \<^verbatim>\<open>max_retries\<close> alone or sets it to at
  least the current \<open>retry_count\<close>.
\<close>

theorem retry_inv_preserved:
  "(valid_ReminderCreate now c \<and> create_reminder now q pat new_id c = Inr (rc, qc) \<longrightarrow> retry_inv rc) \<and>
   (retry_inv r \<and> update_delivery_status now q (Some r) ps ec em = Inr (ok, Some r1, q1) \<longrightarrow> retry_inv r1) \<and>
   (retry_inv r \<and> update_delivery_status now q (Some r) ps ec em = Inl (e5, r5) \<longrightarrow> retry_inv r5) \<and>
   (retry_inv r \<longrightarrow> retry_inv (fst (process_reminder now q pat sms voice r))) \<and>
   (retry_inv r \<and> retry_count r < max_retries r \<longrightarrow>
      retry_inv (fst (handle_failed_reminder retry_delays now r em b))) \<and>
   (retry_inv r \<and> update_reminder member_text now q (Some r) u = Inr (Some r2, q2) \<and>
      (case u_max_retries u of None \<Rightarrow> True | Some m \<Rightarrow> retry_count r \<le> m) \<longrightarrow> retry_inv r2) \<and>
   (retry_inv r \<and> cancel_reminder member_text now q rid (Some r) = Inr (ok3, Some r3, q3) \<longrightarrow> retry_inv r3) \<and>
   (retry_inv r \<and> retry_failed_reminder now q (Some r) force = Inr (ok4, Some r4, q4) \<longrightarrow> retry_inv r4)"
  by (intro conjI impI; (elim conjE)?;
      (erule (2) update_reminder_retry_inv | erule (1) create_reminder_retry_inv
       | erule (1) update_delivery_status_retry_inv | erule (1) update_delivery_status_raised_retry_inv
       | erule (1) handle_failed_retry_inv | erule (1) cancel_reminder_retry_inv
       | erule (1) retry_failed_reminder_retry_inv | erule process_reminder_retry_inv))

theorem retry_inv_preserved_witness:
  "retry_inv (sample_reminder\<lparr>status := RETRY, retry_count := 1\<rparr>) \<and>
   retry_count (sample_reminder\<lparr>status := RETRY, retry_count := 1\<rparr>)
     < max_retries (sample_reminder\<lparr>status := RETRY, retry_count := 1\<rparr>) \<and>
   retry_inv (fst (handle_failed_reminder [300, 900, 1800] 2000
                (sample_reminder\<lparr>status := RETRY, retry_count := 1\<rparr>) None (Reachable empty_store))) \<and>
   retry_inv (fst (process_reminder 2000 (Some []) (Some sample_patient) (Refused None) (Refused None)
                (sample_reminder\<lparr>status := RETRY, retry_count := 1\<rparr>))) \<and>
   valid_ReminderCreate 2000 sample_create \<and>
   \<not> isl (create_reminder 2000 (Some []) (Some sample_patient) 4242 sample_create) \<and>
   retry_inv (fst (projr (create_reminder 2000 (Some []) (Some sample_patient) 4242 sample_create))) \<and>
   update_reminder id_text 2000 (Some []) (Some (sample_reminder\<lparr>status := RETRY, retry_count := 1\<rparr>))
       lower_budget
     = Inr (Some (sample_reminder\<lparr>status := RETRY, retry_count := 1, max_retries := 1,
                    updated_at := Some 2000\<rparr>), Some []) \<and>
   retry_inv (sample_reminder\<lparr>status := RETRY, retry_count := 1, max_retries := 1, updated_at := Some 2000\<rparr>)"
proof -
  let ?r = "sample_reminder\<lparr>status := RETRY, retry_count := 1\<rparr>"
  let ?r2 = "sample_reminder\<lparr>status := RETRY, retry_count := 1, max_retries := 1, updated_at := Some 2000\<rparr>"
  have i: "retry_inv ?r" and b: "retry_count ?r < max_retries ?r"
    by (simp_all add: retry_inv_def sample_reminder_def)
  have v: "valid_ReminderCreate 2000 sample_create"
    by (simp add: valid_ReminderCreate_def sample_create_def)
  obtain rc qc where c: "create_reminder 2000 (Some []) (Some sample_patient) 4242 sample_create = Inr (rc, qc)"
    by (simp add: create_reminder_def Let_def)
  have u: "update_reminder id_text 2000 (Some []) (Some ?r) lower_budget = Inr (Some ?r2, Some [])"
    by (simp add: update_reminder_def lower_budget_def sample_reminder_def Let_def)
  have m: "case u_max_retries lower_budget of None \<Rightarrow> True | Some m \<Rightarrow> retry_count ?r \<le> m"
    by (simp add: lower_budget_def)
  note t = retry_inv_preserved [where now = 2000 and c = sample_create and q = "Some []"
             and pat = "Some sample_patient" and new_id = 4242 and rc = rc and qc = qc and r = ?r
             and sms = "Refused None" and voice = "Refused None" and retry_delays = "[300, 900, 1800]"
             and em = None and b = "Reachable empty_store" and member_text = id_text
             and u = lower_budget and ?r2.0 = ?r2 and ?q2.0 = "Some []"]
  from t i b v c u m show ?thesis by simp
qed

subsection \<open>The scheduler after a failed dispatch\<close>

text \<open>
  Whatever the reminder, the ladder and the state of Redis, \<^verbatim>\<open>_handle_failed_reminder\<close>
  leaves Redis as it found it: the persistence call before the enqueue raises, and the
  enqueue is never reached.
\<close>

lemma handle_failed_reminder_never_enqueues:
  "snd (handle_failed_reminder retry_delays now r error_msg b) = b"
  by (simp add: handle_failed_reminder_def update_reminder_one_argument_def Let_def split: sum.splits)

lemma ladder_delays:
  "calculate_retry_delay [300, 900, 1800] 1 = Inr 300"
  "calculate_retry_delay [300, 900, 1800] 2 = Inr 900"
  "calculate_retry_delay [300, 900, 1800] 3 = Inr 1800"
  "calculate_retry_delay [300, 900, 1800] 4 = Inr 3600"
  by (simp_all add: calculate_retry_delay_def py_index_def)

text \<open>
  C3 fails on the code. With the ladder [300, 900, 1800] and \<^verbatim>\<open>max_retries = 4\<close>, the
  first failure of a fresh reminder at time 1000 counts the retry, computes the delay
  300 and assigns the member RETRY to the status; then the persistence call raises, and
  the retry set of Redis is as empty as before. The reminder, already taken out of its
  queue, is never dispatched again: there is no retry at 300, 900, 1800 or 3600 seconds
  and no fourth failure.
\<close>

theorem failed_dispatch_not_requeued:
  "retry_count fresh_reminder = 0 \<and> max_retries fresh_reminder = 4 \<and>
   calculate_retry_delay [300, 900, 1800] 1 = Inr 300 \<and>
   update_reminder_one_argument (fresh_reminder\<lparr>retry_count := 1, status := RETRY_member\<rparr>)
     = Inl TypeError \<and>
   handle_failed_reminder [300, 900, 1800] 1000 fresh_reminder None (Reachable empty_store)
     = (fresh_reminder\<lparr>retry_count := 1, status := RETRY_member\<rparr>, Reachable empty_store) \<and>
   retry_reminders empty_store = []"
  by code_simp

subsection \<open>Dispatch over both channels\<close>

lemma schedule_reminder_updated_at:
  "schedule_reminder (r\<lparr>updated_at := t\<rparr>) q = schedule_reminder r q"
  by (simp add: schedule_reminder_def entry_of_def split: option.splits)

text \<open>
  The end of \<^verbatim>\<open>_process_reminder\<close>, from the reminder \<open>r2\<close> and the result that
  the sends leave: what the reminder and the queue are afterwards.
\<close>

lemma dispatch_outcome:
  assumes "(case finish_dispatch now q (r2, res) of
              Inl (m, r') \<Rightarrow> (process_failed now m r', q)
            | Inr finished \<Rightarrow> finished) = (r', q')"
  shows "twilio_sid r' = twilio_sid r2 \<and> (status r' = SENT \<longleftrightarrow> res) \<and>
         (\<not> res \<longrightarrow>
            (if retry_count r2 < max_retries r2 then
               (case datetime_plus now (retry_interval r2) of
                  Inr t \<Rightarrow> status r' = RETRY \<and> retry_count r' = retry_count r2 + 1 \<and>
                           error_message r' = error_message r2 \<and> scheduled_time r' = Some t \<and>
                           q' = schedule_reminder r' q
                | Inl txt \<Rightarrow> status r' = FAILED \<and> retry_count r' = retry_count r2 + 1 \<and>
                             error_message r' = Some txt \<and> q' = q)
             else status r' = FAILED \<and> retry_count r' = retry_count r2 \<and>
                  error_message r' = error_message r2 \<and> q' = q))"
proof (cases res)
  case True
  with assms show ?thesis by (auto simp: finish_dispatch_def)
next
  case False
  show ?thesis
  proof (cases "retry_count r2 < max_retries r2")
    case no: False
    with False assms show ?thesis by (auto simp: finish_dispatch_def Let_def)
  next
    case yes: True
    show ?thesis
    proof (cases "datetime_plus now (retry_interval r2)")
      case (Inl raised)
      with False yes assms show ?thesis
        by (auto simp: finish_dispatch_def schedule_retry_def process_failed_def Let_def)
    next
      case (Inr t)
      with False yes assms show ?thesis
        by (auto simp: finish_dispatch_def schedule_retry_def Let_def schedule_reminder_updated_at)
    qed
  qed
qed

lemma send_sms_reminder_result: "snd (send_sms_reminder r outcome) \<longleftrightarrow> (\<exists>sid. outcome = Accepted sid)"
  by (cases outcome) (simp_all add: send_sms_reminder_def)

lemma send_voice_reminder_result: "snd (send_voice_reminder r outcome) \<longleftrightarrow> (\<exists>sid. outcome = Accepted sid)"
  by (cases outcome) (simp_all add: send_voice_reminder_def)

lemma send_sms_reminder_fields:
  "retry_count (fst (send_sms_reminder r outcome)) = retry_count r \<and>
   max_retries (fst (send_sms_reminder r outcome)) = max_retries r \<and>
   retry_interval (fst (send_sms_reminder r outcome)) = retry_interval r \<and>
   twilio_sid (fst (send_sms_reminder r outcome)) =
     (case outcome of Accepted s \<Rightarrow> Some s | Refused e \<Rightarrow> twilio_sid r | Raised m \<Rightarrow> twilio_sid r) \<and>
   error_message (fst (send_sms_reminder r outcome)) =
     (case outcome of
        Accepted s \<Rightarrow> error_message r
      | Refused e \<Rightarrow> Some (case e of None \<Rightarrow> ''Erreur inconnue'' | Some m \<Rightarrow> m)
      | Raised m \<Rightarrow> Some m)"
  by (cases outcome) (simp_all add: send_sms_reminder_def)

lemma send_voice_reminder_fields:
  "retry_count (fst (send_voice_reminder r outcome)) = retry_count r \<and>
   max_retries (fst (send_voice_reminder r outcome)) = max_retries r \<and>
   retry_interval (fst (send_voice_reminder r outcome)) = retry_interval r \<and>
   twilio_sid (fst (send_voice_reminder r outcome)) =
     (case outcome of Accepted s \<Rightarrow> Some s | Refused e \<Rightarrow> twilio_sid r | Raised m \<Rightarrow> twilio_sid r) \<and>
   error_message (fst (send_voice_reminder r outcome)) =
     (case outcome of
        Accepted s \<Rightarrow> error_message r
      | Refused e \<Rightarrow> Some (case e of None \<Rightarrow> ''Erreur inconnue'' | Some m \<Rightarrow> m)
      | Raised m \<Rightarrow> Some m)"
  by (cases outcome) (simp_all add: send_voice_reminder_def)

text \<open>
  C7, as stated, fails: the SMS is accepted, the call is refused for a malformed number,
  and the reminder, with budget left, goes to RETRY with one more retry counted, not to
  FAILED.
\<close>

theorem both_voice_failure_counterexample:
  "process_reminder 2000 (Some []) (Some sample_patient) (Accepted ''SM2'')
       (Refused (Some ''invalid phone number''))
       (fresh_reminder\<lparr>delivery_method := BOTH\<rparr>)
     = (fresh_reminder\<lparr>delivery_method := BOTH, status := RETRY, retry_count := 1,
          twilio_sid := Some ''SM2'', error_message := Some ''invalid phone number'',
          scheduled_time := Some 2300, updated_at := Some 2000\<rparr>,
        Some [(entry_of (fresh_reminder\<lparr>delivery_method := BOTH\<rparr>), 2300)]) \<and>
   RETRY \<noteq> FAILED"
  by code_simp

text \<open>
  C7, amended. With \<^verbatim>\<open>delivery_method = both\<close> the SMS and the call are both
  attempted, whatever the SMS does (the sid kept is that of the call when the call is
  accepted, else that of the SMS when the SMS is accepted), and the reminder becomes
  SENT exactly when both are accepted. The source does not tell permanent from
  transient failures. When the call fails, with a text (\<^verbatim>\<open>Erreur inconnue\<close> when the
  gateway gives none), or when the call is accepted and the SMS fails with a text:
  \<^item> with \<open>retry_count \<ge> max_retries\<close> the reminder is FAILED, \<^verbatim>\<open>error_message\<close> is
    that text and the queue is untouched;
  \<^item> with \<open>retry_count < max_retries\<close> and a due time \<open>now + retry_interval\<close> that
    \<^verbatim>\<open>datetime\<close> can represent, the reminder is in RETRY with one more retry
    counted, \<^verbatim>\<open>error_message\<close> is that text, and it is enqueued for the due time;
  \<^item> with \<open>retry_count < max_retries\<close> and a due time out of range, the retry is
    counted, the \<^verbatim>\<open>OverflowError\<close> ends in the \<^verbatim>\<open>except\<close> branch, and the
    reminder is FAILED with the text of that exception, the queue untouched.
\<close>

theorem process_reminder_both:
  assumes "delivery_method r = BOTH"
    and "process_reminder now q (Some p) sms voice r = (r', q')"
  shows "(status r' = SENT \<longleftrightarrow> (\<exists>s1 s2. sms = Accepted s1 \<and> voice = Accepted s2)) \<and>
         twilio_sid r' =
           (case voice of
              Accepted s2 \<Rightarrow> Some s2
            | Refused e \<Rightarrow>
                (case sms of Accepted s1 \<Rightarrow> Some s1 | Refused e' \<Rightarrow> twilio_sid r | Raised m' \<Rightarrow> twilio_sid r)
            | Raised m \<Rightarrow>
                (case sms of Accepted s1 \<Rightarrow> Some s1 | Refused e' \<Rightarrow> twilio_sid r | Raised m' \<Rightarrow> twilio_sid r)) \<and>
         (\<forall>msg.
            (voice = Refused (Some msg) \<or> voice = Raised msg \<or>
             (voice = Refused None \<and> msg = ''Erreur inconnue'') \<or>
             ((\<exists>s2. voice = Accepted s2) \<and>
              (sms = Refused (Some msg) \<or> sms = Raised msg \<or>
               (sms = Refused None \<and> msg = ''Erreur inconnue''))))
            \<longrightarrow>
            (if retry_count r < max_retries r then
               (case datetime_plus now (retry_interval r) of
                  Inr t \<Rightarrow> status r' = RETRY \<and> retry_count r' = retry_count r + 1 \<and>
                           error_message r' = Some msg \<and> scheduled_time r' = Some t \<and>
                           q' = schedule_reminder r' q
                | Inl txt \<Rightarrow> status r' = FAILED \<and> retry_count r' = retry_count r + 1 \<and>
                             error_message r' = Some txt \<and> q' = q)
             else status r' = FAILED \<and> retry_count r' = retry_count r \<and>
                  error_message r' = Some msg \<and> q' = q))"
proof -
  let ?r0 = "r\<lparr>status := PENDING\<rparr>"
  let ?r1 = "fst (send_sms_reminder ?r0 sms)"
  let ?r2 = "fst (send_voice_reminder ?r1 voice)"
  let ?res = "snd (send_sms_reminder ?r0 sms) \<and> snd (send_voice_reminder ?r1 voice)"
  have "(case finish_dispatch now q (?r2, ?res) of
           Inl (m, r') \<Rightarrow> (process_failed now m r', q)
         | Inr finished \<Rightarrow> finished) = (r', q')"
    using assms by (simp add: process_both)
  note out = dispatch_outcome [OF this]
  have res: "?res \<longleftrightarrow> (\<exists>s1 s2. sms = Accepted s1 \<and> voice = Accepted s2)"
    by (simp add: send_sms_reminder_result send_voice_reminder_result)
  have cnt: "retry_count ?r2 = retry_count r" "max_retries ?r2 = max_retries r"
    "retry_interval ?r2 = retry_interval r"
    by (simp_all add: send_sms_reminder_fields send_voice_reminder_fields)
  have sid: "twilio_sid ?r2 =
           (case voice of
              Accepted s2 \<Rightarrow> Some s2
            | Refused e \<Rightarrow>
                (case sms of Accepted s1 \<Rightarrow> Some s1 | Refused e' \<Rightarrow> twilio_sid r | Raised m' \<Rightarrow> twilio_sid r)
            | Raised m \<Rightarrow>
                (case sms of Accepted s1 \<Rightarrow> Some s1 | Refused e' \<Rightarrow> twilio_sid r | Raised m' \<Rightarrow> twilio_sid r))"
    by (simp add: send_sms_reminder_fields send_voice_reminder_fields split: send_outcome.splits)
  have a: "status r' = SENT \<longleftrightarrow> (\<exists>s1 s2. sms = Accepted s1 \<and> voice = Accepted s2)"
    using out res by simp
  have b: "twilio_sid r' =
           (case voice of
              Accepted s2 \<Rightarrow> Some s2
            | Refused e \<Rightarrow>
                (case sms of Accepted s1 \<Rightarrow> Some s1 | Refused e' \<Rightarrow> twilio_sid r | Raised m' \<Rightarrow> twilio_sid r)
            | Raised m \<Rightarrow>
                (case sms of Accepted s1 \<Rightarrow> Some s1 | Refused e' \<Rightarrow> twilio_sid r | Raised m' \<Rightarrow> twilio_sid r))"
    using out sid by simp
  have c: "if retry_count r < max_retries r then
               (case datetime_plus now (retry_interval r) of
                  Inr t \<Rightarrow> status r' = RETRY \<and> retry_count r' = retry_count r + 1 \<and>
                           error_message r' = Some msg \<and> scheduled_time r' = Some t \<and>
                           q' = schedule_reminder r' q
                | Inl txt \<Rightarrow> status r' = FAILED \<and> retry_count r' = retry_count r + 1 \<and>
                             error_message r' = Some txt \<and> q' = q)
             else status r' = FAILED \<and> retry_count r' = retry_count r \<and>
                  error_message r' = Some msg \<and> q' = q"
    if f: "voice = Refused (Some msg) \<or> voice = Raised msg \<or>
             (voice = Refused None \<and> msg = ''Erreur inconnue'') \<or>
             ((\<exists>s2. voice = Accepted s2) \<and>
              (sms = Refused (Some msg) \<or> sms = Raised msg \<or>
               (sms = Refused None \<and> msg = ''Erreur inconnue'')))" for msg
  proof -
    have nres: "\<not> ?res" using f res by auto
    have em: "error_message ?r2 = Some msg"
      using f by (auto simp: send_sms_reminder_fields send_voice_reminder_fields)
    from out nres have "if retry_count ?r2 < max_retries ?r2 then
               (case datetime_plus now (retry_interval ?r2) of
                  Inr t \<Rightarrow> status r' = RETRY \<and> retry_count r' = retry_count ?r2 + 1 \<and>
                           error_message r' = error_message ?r2 \<and> scheduled_time r' = Some t \<and>
                           q' = schedule_reminder r' q
                | Inl txt \<Rightarrow> status r' = FAILED \<and> retry_count r' = retry_count ?r2 + 1 \<and>
                             error_message r' = Some txt \<and> q' = q)
             else status r' = FAILED \<and> retry_count r' = retry_count ?r2 \<and>
                  error_message r' = error_message ?r2 \<and> q' = q"
      by blast
    then show ?thesis unfolding cnt em .
  qed
  from a b c show ?thesis by blast
qed

text \<open>
  At concrete inputs: a refused call without a text, budget used up; a failed SMS
  followed by an accepted call, whose sid is kept; and a retry interval that takes the
  due time out of range.
\<close>

theorem process_reminder_both_witness:
  "delivery_method (sample_reminder\<lparr>delivery_method := BOTH, status := RETRY, retry_count := 3\<rparr>) = BOTH \<and>
   process_reminder 2000 (Some []) (Some sample_patient) (Accepted ''SM2'') (Refused None)
       (sample_reminder\<lparr>delivery_method := BOTH, status := RETRY, retry_count := 3\<rparr>)
     = (sample_reminder\<lparr>delivery_method := BOTH, status := FAILED, retry_count := 3,
          twilio_sid := Some ''SM2'', error_message := Some ''Erreur inconnue'',
          updated_at := Some 2000\<rparr>, Some []) \<and>
   error_message (sample_reminder\<lparr>delivery_method := BOTH, status := FAILED, retry_count := 3,
          twilio_sid := Some ''SM2'', error_message := Some ''Erreur inconnue'',
          updated_at := Some 2000\<rparr>) = Some ''Erreur inconnue''"
proof -
  let ?r = "sample_reminder\<lparr>delivery_method := BOTH, status := RETRY, retry_count := 3\<rparr>"
  let ?r' = "sample_reminder\<lparr>delivery_method := BOTH, status := FAILED, retry_count := 3,
          twilio_sid := Some ''SM2'', error_message := Some ''Erreur inconnue'',
          updated_at := Some 2000\<rparr>"
  have m: "delivery_method ?r = BOTH" by simp
  have p: "process_reminder 2000 (Some []) (Some sample_patient) (Accepted ''SM2'')
             (Refused None) ?r = (?r', Some [])"
    by code_simp
  have n: "\<not> retry_count ?r < max_retries ?r"
    by (simp add: sample_reminder_def)
  from process_reminder_both [OF m p] n have "error_message ?r' = Some ''Erreur inconnue''"
    by auto
  with m p show ?thesis by blast
qed

lemma process_reminder_both_sms_failed_call_made:
  "process_reminder 2000 (Some []) (Some sample_patient) (Raised ''template error'')
       (Accepted ''CA7'') (fresh_reminder\<lparr>delivery_method := BOTH\<rparr>)
     = (fresh_reminder\<lparr>delivery_method := BOTH, status := RETRY, retry_count := 1,
          twilio_sid := Some ''CA7'', error_message := Some ''template error'',
          scheduled_time := Some 2300, updated_at := Some 2000\<rparr>,
        Some [(entry_of (fresh_reminder\<lparr>delivery_method := BOTH\<rparr>), 2300)])"
  by code_simp

lemma process_reminder_both_due_time_out_of_range:
  "process_reminder 2000 (Some []) (Some sample_patient) (Accepted ''SM2'')
       (Refused (Some ''invalid phone number''))
       (fresh_reminder\<lparr>delivery_method := BOTH, retry_interval := 1000000000000\<rparr>)
     = (fresh_reminder\<lparr>delivery_method := BOTH, retry_interval := 1000000000000,
          status := FAILED, retry_count := 1, twilio_sid := Some ''SM2'',
          error_message := Some ''date value out of range'', updated_at := Some 2000\<rparr>,
        Some [])"
  by code_simp

subsection \<open>The queue service when Redis cannot be reached\<close>

text \<open>
  C8, as stated, fails for the enqueue operations: their \<^verbatim>\<open>except\<close> branch logs
  and raises again, so the caller receives the exception.
\<close>

theorem enqueue_unreachable_counterexample:
  "enqueue_retry_reminder 2000 sample_reminder 300 Unreachable = Inl ConnectionError \<and>
   enqueue_scheduled_reminder 2000 sample_reminder 300 Unreachable = Inl ConnectionError"
  by code_simp

text \<open>
  C8, amended. When Redis cannot be reached, the three dequeue operations return the
  empty list and raise nothing; the enqueue operations raise to their caller: the
  connection error, or, when the time of execution cannot be represented, the
  \<^verbatim>\<open>OverflowError\<close> of the sum, which comes before the command.
\<close>

theorem unreachable_backend_results:
  "get_due_scheduled_reminders member_text now limit Unreachable = ([], Unreachable) \<and>
   get_due_retry_reminders member_text now limit Unreachable = ([], Unreachable) \<and>
   get_immediate_reminders limit Unreachable = ([], Unreachable) \<and>
   enqueue_scheduled_reminder now r delay_seconds Unreachable
     = Inl (if 0 < delay_seconds then
              (case datetime_plus now delay_seconds of
                 Inl m \<Rightarrow> OverflowError m
               | Inr execute_at \<Rightarrow> ConnectionError)
            else ConnectionError) \<and>
   enqueue_immediate_reminder now r Unreachable = Inl ConnectionError \<and>
   enqueue_retry_reminder now r retry_delay Unreachable
     = Inl (case datetime_plus now retry_delay of
              Inl m \<Rightarrow> OverflowError m
            | Inr execute_at \<Rightarrow> ConnectionError)"
  by (simp add: get_due_scheduled_reminders_def get_due_retry_reminders_def
        get_immediate_reminders_def enqueue_scheduled_reminder_def
        enqueue_immediate_reminder_def enqueue_retry_reminder_def split: sum.splits)

theorem unreachable_backend_results_witness:
  "get_due_scheduled_reminders (\<lambda>r. []) 2000 50 Unreachable = ([], Unreachable) \<and>
   get_due_retry_reminders (\<lambda>r. []) 2000 50 Unreachable = ([], Unreachable) \<and>
   get_immediate_reminders 50 Unreachable = ([], Unreachable) \<and>
   enqueue_scheduled_reminder 2000 sample_reminder 120 Unreachable = Inl ConnectionError \<and>
   enqueue_immediate_reminder 2000 sample_reminder Unreachable = Inl ConnectionError \<and>
   enqueue_retry_reminder 2000 sample_reminder 900 Unreachable = Inl ConnectionError"
proof -
  have d: "datetime_plus 2000 120 = Inr 2120" "datetime_plus 2000 900 = Inr 2900"
    by (simp_all add: datetime_plus_def timedelta_def)
  from unreachable_backend_results [of "\<lambda>r. []" 2000 50 sample_reminder 120 900] d
  show ?thesis by simp
qed

subsection \<open>Locks\<close>

lemma map_of_delete: "map_of (AList.delete k xs) k' = (if k' = k then None else map_of xs k')"
  by (simp add: AList.delete_conv')

lemma map_of_update: "map_of (AList.update k v xs) k' = (if k' = k then Some v else map_of xs k')"
  by (simp add: AList.update_conv')

text \<open>
  C9, as stated, fails. A first scheduler takes the lock at time 0 for 60 seconds and
  overruns; the lock expires, a second scheduler takes it at time 61 (value
  \<^verbatim>\<open>61.0\<close>); at time 70 the first one releases, and the lock of the second is
  deleted.
\<close>

theorem release_foreign_lock_counterexample:
  "acquire_lock 0 ''scheduler'' 60 (Reachable empty_store)
     = (True, Reachable (empty_store\<lparr>locks := [(''locks:scheduler'', (''0.0'', 60))]\<rparr>)) \<and>
   acquire_lock 61 ''scheduler'' 60
       (Reachable (empty_store\<lparr>locks := [(''locks:scheduler'', (''0.0'', 60))]\<rparr>))
     = (True, Reachable (empty_store\<lparr>locks := [(''locks:scheduler'', (''61.0'', 121))]\<rparr>)) \<and>
   ''61.0'' \<noteq> ''0.0'' \<and>
   release_lock 70 ''scheduler''
       (Reachable (empty_store\<lparr>locks := [(''locks:scheduler'', (''61.0'', 121))]\<rparr>))
     = (True, Reachable empty_store)"
  by code_simp

text \<open>
  C9, amended. \<^verbatim>\<open>release_lock(name)\<close> takes no token and compares none: on a
  reachable Redis it deletes the named lock whatever value it holds, returns whether a
  live lock was there, and leaves every other lock as it was. \<^verbatim>\<open>acquire_lock\<close>, on
  a reachable Redis and with a positive timeout, writes the lock only when no live lock
  of that name exists: its value is the text of the current timestamp, its expiry
  \<open>now + timeout\<close>, and the call returns \<^verbatim>\<open>True\<close>; when a live lock exists it
  returns \<^verbatim>\<open>False\<close> and changes nothing.
\<close>

theorem release_lock_unconditional:
  assumes "release_lock now lock_name (Reachable s) = (ok, b')"
  shows "(\<exists>s'. b' = Reachable s' \<and>
            map_of (locks s') (lock_key lock_name) = None \<and>
            live_lock later (lock_key lock_name) s' = None \<and>
            (ok \<longleftrightarrow> live_lock now (lock_key lock_name) s \<noteq> None) \<and>
            (\<forall>k. k \<noteq> lock_key lock_name \<longrightarrow>
               map_of (locks s') k = map_of (locks s) k \<and>
               live_lock later k s' = live_lock later k s)) \<and>
         (0 < timeout \<and> live_lock t (lock_key n) s0 = None \<longrightarrow>
            (\<exists>s1. acquire_lock t n timeout (Reachable s0) = (True, Reachable s1) \<and>
               map_of (locks s1) (lock_key n) = Some (timestamp_text t, t + timeout) \<and>
               (\<forall>k. k \<noteq> lock_key n \<longrightarrow> map_of (locks s1) k = map_of (locks s0) k))) \<and>
         (live_lock t (lock_key n) s0 \<noteq> None \<longrightarrow>
            acquire_lock t n timeout (Reachable s0) = (False, Reachable s0))"
proof (intro conjI impI)
  show "\<exists>s'. b' = Reachable s' \<and>
            map_of (locks s') (lock_key lock_name) = None \<and>
            live_lock later (lock_key lock_name) s' = None \<and>
            (ok \<longleftrightarrow> live_lock now (lock_key lock_name) s \<noteq> None) \<and>
            (\<forall>k. k \<noteq> lock_key lock_name \<longrightarrow>
               map_of (locks s') k = map_of (locks s) k \<and>
               live_lock later k s' = live_lock later k s)"
    using assms
    by (auto simp: release_lock_def Let_def live_lock_def map_of_delete)
next
  assume "0 < timeout \<and> live_lock t (lock_key n) s0 = None"
  then show "\<exists>s1. acquire_lock t n timeout (Reachable s0) = (True, Reachable s1) \<and>
               map_of (locks s1) (lock_key n) = Some (timestamp_text t, t + timeout) \<and>
               (\<forall>k. k \<noteq> lock_key n \<longrightarrow> map_of (locks s1) k = map_of (locks s0) k)"
    by (simp add: acquire_lock_def Let_def map_of_update)
next
  assume "live_lock t (lock_key n) s0 \<noteq> None"
  then show "acquire_lock t n timeout (Reachable s0) = (False, Reachable s0)"
    by (auto simp: acquire_lock_def Let_def)
qed

theorem release_lock_unconditional_witness:
  "release_lock 70 ''scheduler''
       (Reachable (empty_store\<lparr>locks := [(''locks:scheduler'', (''61.0'', 121)),
                                             (''locks:metrics'', (''50.0'', 350))]\<rparr>))
     = (True, Reachable (empty_store\<lparr>locks := [(''locks:metrics'', (''50.0'', 350))]\<rparr>)) \<and>
   live_lock 70 (lock_key ''scheduler'')
       (empty_store\<lparr>locks := [(''locks:metrics'', (''50.0'', 350))]\<rparr>) = None \<and>
   live_lock 70 (lock_key ''metrics'')
       (empty_store\<lparr>locks := [(''locks:metrics'', (''50.0'', 350))]\<rparr>) = Some (''50.0'', 350) \<and>
   (0::int) < 60 \<and> live_lock 61 (lock_key ''scheduler'')
       (empty_store\<lparr>locks := [(''locks:scheduler'', (''0.0'', 60))]\<rparr>) = None \<and>
   acquire_lock 61 ''scheduler'' 60
       (Reachable (empty_store\<lparr>locks := [(''locks:scheduler'', (''0.0'', 60))]\<rparr>))
     = (True, Reachable (empty_store\<lparr>locks := [(''locks:scheduler'', (''61.0'', 121))]\<rparr>)) \<and>
   live_lock 60 (lock_key ''scheduler'')
       (empty_store\<lparr>locks := [(''locks:scheduler'', (''0.0'', 60))]\<rparr>) \<noteq> None \<and>
   acquire_lock 60 ''scheduler'' 60
       (Reachable (empty_store\<lparr>locks := [(''locks:scheduler'', (''0.0'', 60))]\<rparr>))
     = (False, Reachable (empty_store\<lparr>locks := [(''locks:scheduler'', (''0.0'', 60))]\<rparr>))"
proof -
  let ?s = "empty_store\<lparr>locks := [(''locks:scheduler'', (''61.0'', 121)),
                                      (''locks:metrics'', (''50.0'', 350))]\<rparr>"
  let ?s' = "empty_store\<lparr>locks := [(''locks:metrics'', (''50.0'', 350))]\<rparr>"
  let ?old = "empty_store\<lparr>locks := [(''locks:scheduler'', (''0.0'', 60))]\<rparr>"
  have h: "release_lock 70 ''scheduler'' (Reachable ?s) = (True, Reachable ?s')"
    by code_simp
  have k: "lock_key ''metrics'' \<noteq> lock_key ''scheduler''"
    by (simp add: lock_key_def)
  have l: "live_lock 70 (lock_key ''metrics'') ?s = Some (''50.0'', 350)"
    by code_simp
  have free: "live_lock 61 (lock_key ''scheduler'') ?old = None"
    by code_simp
  have held: "live_lock 60 (lock_key ''scheduler'') ?old \<noteq> None"
    by code_simp
  have a: "acquire_lock 61 ''scheduler'' 60 (Reachable ?old)
             = (True, Reachable (empty_store\<lparr>locks := [(''locks:scheduler'', (''61.0'', 121))]\<rparr>))"
    by code_simp
  note t1 = release_lock_unconditional [OF h, of 70 60 60 "''scheduler''" ?old]
  have r1: "live_lock 70 (lock_key ''scheduler'') ?s' = None"
    and r2: "live_lock 70 (lock_key ''metrics'') ?s' = live_lock 70 (lock_key ''metrics'') ?s"
    and r3: "acquire_lock 60 ''scheduler'' 60 (Reachable ?old) = (False, Reachable ?old)"
    using t1 k held by auto
  from h r1 r2 r3 l free held a show ?thesis by simp
qed

end
